theory Spec2Isabelle
  imports Main "HOL-Library.Word"
begin

section \<open>The expression pipeline of calculator\_utils.js\<close>

text \<open>
  The module evaluates user-written formulas. It rewrites the text
  (\<open>preprocessExpression\<close>), builds a name-to-value object from the variable list
  (\<open>buildVariableContext\<close>), substitutes calls to other user functions
  (\<open>evaluateExpression\<close>), hands the resulting text to the JavaScript engine through
  \<open>new Function\<close>, and differentiates numerically (\<open>numericalDerivative\<close>).

  Strings are modelled as \<open>string\<close>. Every regular expression of the module tests
  ASCII characters only and none carries the \<open>u\<close> flag, so a character outside ASCII
  behaves like any other unmatched character, whether it is read as UTF-16 code units or
  as UTF-8 bytes.
\<close>

subsection \<open>JavaScript values\<close>

text \<open>
  A Number is its IEEE-754 binary64 bit pattern. \<open>Number.isFinite\<close> holds when the
  exponent field is not all ones; a NaN has an all-ones exponent and a non-zero fraction;
  the two zeros differ in the sign bit only.
\<close>

type_synonym jsnum = "64 word"

definition number_isFinite :: "jsnum \<Rightarrow> bool" where
  "number_isFinite w = (take_bit 11 (drop_bit 52 w) \<noteq> (2047 :: 64 word))"

definition number_isNaN :: "jsnum \<Rightarrow> bool" where
  "number_isNaN w = (take_bit 11 (drop_bit 52 w) = (2047 :: 64 word) \<and> take_bit 52 w \<noteq> 0)"

definition number_isZero :: "jsnum \<Rightarrow> bool" where
  "number_isZero w = (take_bit 63 w = 0)"

definition js_NaN :: jsnum where "js_NaN = 0x7FF8000000000000"

definition js_Infinity :: jsnum where "js_Infinity = 0x7FF0000000000000"

definition js_neg_Infinity :: jsnum where "js_neg_Infinity = 0xFFF0000000000000"

definition js_zero :: jsnum where "js_zero = 0"

definition js_neg_zero :: jsnum where "js_neg_zero = 0x8000000000000000"

definition js_one :: jsnum where "js_one = 0x3FF0000000000000"

definition js_two :: jsnum where "js_two = 0x4000000000000000"

definition Math_PI :: jsnum where "Math_PI = 0x400921FB54442D18"

definition Math_E :: jsnum where "Math_E = 0x4005BF0A8B145769"

text \<open>
  The values that reach the module: primitives, and the built-in functions of \<open>Math\<close>
  (named, never applied here: only the engine calls them).
\<close>

datatype jsval =
    JUndefined
  | JNull
  | JBool bool
  | JNum jsnum
  | JStr string
  | JNative string

fun js_typeof :: "jsval \<Rightarrow> string" where
  "js_typeof JUndefined = ''undefined''"
| "js_typeof JNull = ''object''"
| "js_typeof (JBool b) = ''boolean''"
| "js_typeof (JNum n) = ''number''"
| "js_typeof (JStr s) = ''string''"
| "js_typeof (JNative f) = ''function''"

text \<open>\<open>===\<close> on these values: NaN equals nothing, and the two zeros are equal.\<close>

fun strict_equals :: "jsval \<Rightarrow> jsval \<Rightarrow> bool" where
  "strict_equals (JNum a) (JNum b) =
     (\<not> number_isNaN a \<and> \<not> number_isNaN b \<and> (a = b \<or> (number_isZero a \<and> number_isZero b)))"
| "strict_equals a b = (a = b)"

datatype js_error = SyntaxError | ReferenceError | TypeError | RangeError | Thrown jsval

text \<open>
  A plain object is the list of its own enumerable properties in creation order.
  Defining a property that exists keeps its position; spreading a source defines its
  properties one by one. An assignment \<open>obj[k] = v\<close> to a plain object defines the
  property too, except for the key \<open>__proto__\<close>: that key is the accessor inherited
  from \<open>Object.prototype\<close>, whose setter ignores a value that is neither an object nor
  \<open>null\<close>, so assigning a number to it stores nothing.
\<close>

type_synonym jsobj = "(string \<times> jsval) list"

fun define_property :: "jsobj \<Rightarrow> string \<Rightarrow> jsval \<Rightarrow> jsobj" where
  "define_property [] k v = [(k, v)]"
| "define_property (p # ps) k v =
     (if fst p = k then (k, v) # ps else p # define_property ps k v)"

definition assign_property :: "jsobj \<Rightarrow> string \<Rightarrow> jsnum \<Rightarrow> jsobj" where
  "assign_property obj k n =
     (if k = ''__proto__'' then obj else define_property obj k (JNum n))"

definition spread_into :: "jsobj \<Rightarrow> jsobj \<Rightarrow> jsobj" where
  "spread_into target source = foldl (\<lambda>obj (k, v). define_property obj k v) target source"

subsection \<open>The engine\<close>

text \<open>
  What the module takes from the JavaScript engine and does not define itself is a
  parameter of the model:
  \<^item> \<open>call_new_function ctx body\<close> is
    \<^verbatim>\<open>new Function(...Object.keys(ctx), body)(...Object.values(ctx))\<close>: the value
    returned, or the exception raised while compiling or running the body;
  \<^item> \<open>number_to_string\<close> is the conversion of a Number to text that
    \<open>String.prototype.replace\<close> applies to a number returned by its callback;
  \<^item> \<open>regexp_replace source s callback\<close> is
    \<^verbatim>\<open>s.replace(new RegExp(source, 'g'), callback)\<close> for a source that is not plain
    text; the callback receives the match and the first capture group (absent when the
    group took no part in the match);
  \<^item> \<open>num_add\<close>, \<open>num_sub\<close>, \<open>num_mul\<close>, \<open>num_div\<close> are the arithmetic of
    Numbers.
\<close>

record js_runtime =
  call_new_function :: "jsobj \<Rightarrow> string \<Rightarrow> js_error + jsval"
  number_to_string :: "jsnum \<Rightarrow> string"
  regexp_replace :: "string \<Rightarrow> string \<Rightarrow> (string \<Rightarrow> string option \<Rightarrow> string) \<Rightarrow> js_error + string"
  num_add :: "jsnum \<Rightarrow> jsnum \<Rightarrow> jsnum"
  num_sub :: "jsnum \<Rightarrow> jsnum \<Rightarrow> jsnum"
  num_mul :: "jsnum \<Rightarrow> jsnum \<Rightarrow> jsnum"
  num_div :: "jsnum \<Rightarrow> jsnum \<Rightarrow> jsnum"

text \<open>
  \<^verbatim>\<open>try { body } catch { handler }\<close>: a computation either raises (\<open>Inl\<close>) or
  returns (\<open>Inr\<close>).
\<close>

definition try_catch :: "js_error + 'a \<Rightarrow> js_error + 'a \<Rightarrow> js_error + 'a" where
  "try_catch body handler = (case body of Inl e \<Rightarrow> handler | Inr v \<Rightarrow> Inr v)"

subsection \<open>safeMath\<close>

definition safeMath :: jsobj where
  "safeMath =
     [(''sin'', JNative ''Math.sin''),
      (''cos'', JNative ''Math.cos''),
      (''tan'', JNative ''Math.tan''),
      (''sqrt'', JNative ''Math.sqrt''),
      (''abs'', JNative ''Math.abs''),
      (''exp'', JNative ''Math.exp''),
      (''ln'', JNative ''Math.log''),
      (''log'', JNative ''Math.log10''),
      (''PI'', JNum Math_PI),
      (''E'', JNum Math_E),
      (''pow'', JNative ''Math.pow''),
      (''asin'', JNative ''Math.asin''),
      (''acos'', JNative ''Math.acos''),
      (''atan'', JNative ''Math.atan''),
      (''sinh'', JNative ''Math.sinh''),
      (''cosh'', JNative ''Math.cosh''),
      (''tanh'', JNative ''Math.tanh''),
      (''floor'', JNative ''Math.floor''),
      (''ceil'', JNative ''Math.ceil''),
      (''round'', JNative ''Math.round''),
      (''min'', JNative ''Math.min''),
      (''max'', JNative ''Math.max'')]"

subsection \<open>Character classes of the regular expressions\<close>

text \<open>\<open>\d\<close>, \<open>[a-z]\<close> under the \<open>i\<close> flag, and \<open>\w\<close>.\<close>

definition is_digit :: "char \<Rightarrow> bool" where
  "is_digit c = (c \<in> set ''0123456789'')"

definition is_letter :: "char \<Rightarrow> bool" where
  "is_letter c = (c \<in> set ''abcdefghijklmnopqrstuvwxyzABCDEFGHIJKLMNOPQRSTUVWXYZ'')"

definition is_word_char :: "char \<Rightarrow> bool" where
  "is_word_char c = (is_letter c \<or> is_digit c \<or> c = CHR ''_'')"

text \<open>\<open>next_is A cs\<close>: the text \<open>cs\<close> starts with a character of class \<open>A\<close>.\<close>

definition next_is :: "(char \<Rightarrow> bool) \<Rightarrow> string \<Rightarrow> bool" where
  "next_is A cs = (case cs of [] \<Rightarrow> False | d # _ \<Rightarrow> A d)"

subsection \<open>preprocessExpression\<close>

text \<open>
  Each \<open>String.prototype.replace\<close> with a global pattern scans from the left and resumes
  after the end of a match.

  \<^verbatim>\<open>.replace(/\^/g, '**')\<close>
\<close>

fun replace_caret :: "string \<Rightarrow> string" where
  "replace_caret [] = []"
| "replace_caret (c # cs) =
     (if c = CHR ''^'' then ''**'' @ replace_caret cs else c # replace_caret cs)"

text \<open>
  The four rules that insert a multiplication sign match two characters, of classes \<open>P\<close>
  and \<open>Q\<close>, and put \<open>*\<close> between them:
  \<^verbatim>\<open>.replace(/(\d)([a-z])/gi, '$1*$2')\<close>,
  \<^verbatim>\<open>.replace(/\)(\d)/g, ')*$1')\<close>,
  \<^verbatim>\<open>.replace(/(\d)\(/g, '$1*(')\<close>,
  \<^verbatim>\<open>.replace(/\)\(/g, ')*(')\<close>.
  Both characters are consumed by the match.
\<close>

fun insert_mul :: "(char \<Rightarrow> bool) \<Rightarrow> (char \<Rightarrow> bool) \<Rightarrow> string \<Rightarrow> string" where
  "insert_mul P Q (c # d # cs) =
     (if P c \<and> Q d then c # CHR ''*'' # d # insert_mul P Q cs
      else c # insert_mul P Q (d # cs))"
| "insert_mul P Q cs = cs"

text \<open>\<^verbatim>\<open>.replace(/pi/gi, 'PI')\<close>\<close>

fun replace_pi :: "string \<Rightarrow> string" where
  "replace_pi (c # d # cs) =
     (if (c = CHR ''p'' \<or> c = CHR ''P'') \<and> (d = CHR ''i'' \<or> d = CHR ''I'')
      then CHR ''P'' # CHR ''I'' # replace_pi cs
      else c # replace_pi (d # cs))"
| "replace_pi cs = cs"

text \<open>
  \<^verbatim>\<open>.replace(/e(?![a-df-z])/gi, 'E')\<close>: the lookahead class, under the \<open>i\<close> flag, is
  every ASCII letter except \<open>e\<close> and \<open>E\<close>; the lookahead consumes nothing.
\<close>

definition e_excluded :: "char \<Rightarrow> bool" where
  "e_excluded d = (is_letter d \<and> d \<noteq> CHR ''e'' \<and> d \<noteq> CHR ''E'')"

fun replace_e :: "string \<Rightarrow> string" where
  "replace_e [] = []"
| "replace_e (c # cs) =
     (if (c = CHR ''e'' \<or> c = CHR ''E'') \<and> \<not> next_is e_excluded cs
      then CHR ''E'' # replace_e cs
      else c # replace_e cs)"

definition preprocessExpression :: "string \<Rightarrow> string" where
  "preprocessExpression expr =
     replace_e (replace_pi
       (insert_mul (\<lambda>c. c = CHR '')'') (\<lambda>c. c = CHR ''('')
       (insert_mul is_digit (\<lambda>c. c = CHR ''('')
       (insert_mul (\<lambda>c. c = CHR '')'') is_digit
       (insert_mul is_digit is_letter
       (replace_caret expr))))))"

subsection \<open>buildVariableContext\<close>

text \<open>
  An entry of the variable list is an object with a \<open>name\<close> and a \<open>value\<close> (a missing
  field reads as \<open>undefined\<close>), or \<open>null\<close>/\<open>undefined\<close>, for which the optional
  chaining \<open>variable?.name\<close> gives \<open>undefined\<close>.
\<close>

datatype variable = Nullish | Variable (var_name: jsval) (var_value: jsval)

fun variable_name :: "variable \<Rightarrow> jsval" where
  "variable_name Nullish = JUndefined"
| "variable_name (Variable n v) = n"

fun variable_value :: "variable \<Rightarrow> jsval" where
  "variable_value Nullish = JUndefined"
| "variable_value (Variable n v) = v"

text \<open>
  The body of the \<open>forEach\<close>:
  \<^verbatim>\<open>if (typeof variable?.name === 'string' && typeof variable?.value === 'number')
    context[variable.name] = variable.value;\<close>
\<close>

fun store_variable :: "jsobj \<Rightarrow> variable \<Rightarrow> jsobj" where
  "store_variable context variable =
     (if js_typeof (variable_name variable) = ''string''
         \<and> js_typeof (variable_value variable) = ''number''
      then (case (variable_name variable, variable_value variable) of
              (JStr name, JNum val) \<Rightarrow> assign_property context name val
            | _ \<Rightarrow> context)
      else context)"

definition buildVariableContext :: "variable list \<Rightarrow> jsobj" where
  "buildVariableContext variables = foldl store_variable [] variables"

subsection \<open>The evaluation context\<close>

text \<open>\<^verbatim>\<open>{ ...safeMath, ...varContext, [independentVar]: xValue }\<close>\<close>

definition allContext :: "string \<Rightarrow> jsnum \<Rightarrow> variable list \<Rightarrow> jsobj" where
  "allContext independentVar xValue variables =
     define_property
       (spread_into (spread_into [] safeMath) (buildVariableContext variables))
       independentVar (JNum xValue)"

subsection \<open>evaluateExpressionSimple\<close>

text \<open>\<^verbatim>\<open>Number.isFinite(result) ? result : null\<close>\<close>

fun finite_or_null :: "jsval \<Rightarrow> jsnum option" where
  "finite_or_null (JNum n) = (if number_isFinite n then Some n else None)"
| "finite_or_null v = None"

text \<open>
  The last four statements of both evaluators: build the context, compile
  \<^verbatim>\<open>`return ${processedExpr}`\<close> with the names of the context as parameters, call it
  with their values, and keep a finite result.
\<close>

definition run_expression ::
  "js_runtime \<Rightarrow> string \<Rightarrow> jsnum \<Rightarrow> string \<Rightarrow> variable list \<Rightarrow> js_error + jsnum option" where
  "run_expression R processedExpr xValue independentVar variables =
     (case call_new_function R (allContext independentVar xValue variables)
             (''return '' @ processedExpr) of
        Inl e \<Rightarrow> Inl e
      | Inr result \<Rightarrow> Inr (finite_or_null result))"

definition evaluateExpressionSimple ::
  "js_runtime \<Rightarrow> string \<Rightarrow> jsnum \<Rightarrow> string \<Rightarrow> variable list \<Rightarrow> js_error + jsnum option" where
  "evaluateExpressionSimple R expr xValue independentVar variables =
     try_catch
       (run_expression R (preprocessExpression expr) xValue independentVar variables)
       (Inr None)"

subsection \<open>evaluateExpression\<close>

text \<open>
  A function definition, and the options of a call (the option \<open>functions\<close> is the
  field \<open>functionDefs\<close>). An entry of the function list may be \<open>null\<close> (\<open>None\<close>);
  \<open>id\<close> and \<open>visible\<close> are any values, compared with \<open>===\<close>; an absent
  \<open>dependentVar\<close> or \<open>independentVar\<close> is the empty string, which \<open>||\<close> treats alike.
\<close>

record function_def =
  func_id :: jsval
  func_expr :: string
  func_visible :: jsval
  func_independentVar :: string
  func_dependentVar :: string

record config =
  independentVar :: string
  currentFuncId :: jsval
  functionDefs :: "function_def option list"
  variables :: "variable list"

definition default_config :: config where
  "default_config = \<lparr> independentVar = ''x'', currentFuncId = JNull, functionDefs = [],
       variables = [] \<rparr>"

definition or_default :: "string \<Rightarrow> string \<Rightarrow> string" where
  "or_default s d = (if s = [] then d else s)"

text \<open>
  \<^verbatim>\<open>new RegExp(`${funcName}\\(([^)]+)\\)`, 'g')\<close>. The syntax characters of a
  regular expression are \<^verbatim>\<open>\ ^ $ . * + ? ( ) [ ] { } |\<close>; every other character of a
  pattern matches itself. When \<open>funcName\<close> holds none of them the pattern is the plain
  text \<open>funcName\<close> followed by \<open>(\<close>, one or more characters other than \<open>)\<close>, and
  \<open>)\<close>. \<open>call_at name s\<close> matches it at the start of \<open>s\<close> and returns the match,
  the capture group and the text after the match. The group is greedy, and a shorter run
  of characters is never followed by \<open>)\<close>, so backtracking finds nothing more.
\<close>

definition regex_syntax_char :: "char \<Rightarrow> bool" where
  "regex_syntax_char c = (c = CHR 0x5C \<or> c \<in> set ''^$.*+?()[]{}|'')"

definition regex_literal :: "string \<Rightarrow> bool" where
  "regex_literal name = list_all (\<lambda>c. \<not> regex_syntax_char c) name"

definition func_pattern :: "string \<Rightarrow> string" where
  "func_pattern funcName = funcName @ [CHR 0x5C] @ ''(([^)]+)'' @ [CHR 0x5C] @ '')''"

definition call_at :: "string \<Rightarrow> string \<Rightarrow> (string \<times> string \<times> string) option" where
  "call_at name text =
     (if take (length name + 1) text = name @ ''(''
      then (let body = drop (length name + 1) text;
                innerExpr = takeWhile (\<lambda>c. c \<noteq> CHR '')'') body;
                rest = dropWhile (\<lambda>c. c \<noteq> CHR '')'') body
            in if innerExpr \<noteq> [] \<and> rest \<noteq> []
               then Some (name @ ''('' @ innerExpr @ '')'', innerExpr, tl rest)
               else None)
      else None)"

text \<open>
  \<open>s.replace(pattern, callback)\<close> for such a pattern: try each position from the left;
  after a match, continue behind it.
\<close>

function replace_calls ::
  "string \<Rightarrow> (string \<Rightarrow> string option \<Rightarrow> string) \<Rightarrow> string \<Rightarrow> string" where
  "replace_calls name callback [] = []"
| "replace_calls name callback (c # cs) =
     (case call_at name (c # cs) of
        Some (match, innerExpr, rest) \<Rightarrow>
          callback match (Some innerExpr) @ replace_calls name callback rest
      | None \<Rightarrow> c # replace_calls name callback cs)"
  by pat_completeness auto
termination
proof (relation "measure (\<lambda>(name, callback, s). length s)")
  show "wf (measure (\<lambda>(name, callback, s). length s))"
    for dummy :: "string \<times> (string \<Rightarrow> string option \<Rightarrow> string) \<times> string"
    by simp
next
  fix name c cs found m tail i and rest :: string
    and callback :: "string \<Rightarrow> string option \<Rightarrow> string"
  assume found: "call_at name (c # cs) = Some found" "(m, tail) = found" "(i, rest) = tail"
  define body where "body = drop (length name + 1) (c # cs)"
  from found have "call_at name (c # cs) = Some (m, i, rest)"
    by auto
  then have "rest = tl (dropWhile (\<lambda>c. c \<noteq> CHR '')'') body)"
    and "dropWhile (\<lambda>c. c \<noteq> CHR '')'') body \<noteq> []"
    by (auto simp: call_at_def Let_def body_def split: if_splits)
  moreover have "length (dropWhile (\<lambda>c. c \<noteq> CHR '')'') body) \<le> length (c # cs)"
    using length_dropWhile_le [of "\<lambda>c. c \<noteq> CHR '')''" body] by (simp add: body_def)
  ultimately have "length rest < length (c # cs)"
    by (cases "dropWhile (\<lambda>c. c \<noteq> CHR '')'') body") auto
  then show "((name, callback, rest), name, callback, c # cs)
      \<in> measure (\<lambda>(name, callback, s). length s)"
    by simp
qed simp

text \<open>
  The callback of the \<open>replace\<close>. \<open>self\<close> is the recursive call
  \<^verbatim>\<open>evaluateExpression(innerExpr, xValue, {...})\<close> with the options unchanged. The
  number returned by the callback is converted to text by \<open>replace\<close>. When the capture
  group is absent the recursive call receives \<open>undefined\<close>, fails at
  \<open>processedExpr.replace\<close> (or runs out of stack), and the callback returns the match.
\<close>

definition substitute_call ::
  "js_runtime \<Rightarrow> (string \<Rightarrow> js_error + jsnum option) \<Rightarrow> config \<Rightarrow> function_def
     \<Rightarrow> string \<Rightarrow> string option \<Rightarrow> string" where
  "substitute_call R self cfg func match innerExpr =
     (case (case innerExpr of
              None \<Rightarrow> Inr match
            | Some inner \<Rightarrow>
                (case self inner of
                   Inl e \<Rightarrow> Inl e
                 | Inr None \<Rightarrow> Inr match
                 | Inr (Some innerValue) \<Rightarrow>
                     (case evaluateExpressionSimple R (func_expr func) innerValue
                             (or_default (func_independentVar func) ''x'') (variables cfg) of
                        Inl e \<Rightarrow> Inl e
                      | Inr None \<Rightarrow> Inr match
                      | Inr (Some funcValue) \<Rightarrow> Inr (number_to_string R funcValue)))) of
        Inl e \<Rightarrow> match
      | Inr replacement \<Rightarrow> replacement)"

text \<open>
  The body of \<open>functions.forEach\<close> for one entry, and the loop. A pattern that is not
  plain text is left to the engine, which may reject it.
\<close>

definition resolve_function ::
  "js_runtime \<Rightarrow> (string \<Rightarrow> js_error + jsnum option) \<Rightarrow> config
     \<Rightarrow> string \<Rightarrow> function_def option \<Rightarrow> js_error + string" where
  "resolve_function R self cfg processedExpr func =
     (case func of
        None \<Rightarrow> Inr processedExpr
      | Some f \<Rightarrow>
          if strict_equals (func_id f) (currentFuncId cfg) \<or> func_visible f = JBool False
          then Inr processedExpr
          else (let funcName = or_default (func_dependentVar f) ''f'' in
                if regex_literal funcName
                then Inr (replace_calls funcName (substitute_call R self cfg f) processedExpr)
                else regexp_replace R (func_pattern funcName) processedExpr
                       (substitute_call R self cfg f)))"

fun for_each ::
  "(string \<Rightarrow> 'f \<Rightarrow> js_error + string) \<Rightarrow> string \<Rightarrow> 'f list \<Rightarrow> js_error + string" where
  "for_each step processedExpr [] = Inr processedExpr"
| "for_each step processedExpr (func # rest) =
     (case step processedExpr func of
        Inl e \<Rightarrow> Inl e
      | Inr rewritten \<Rightarrow> for_each step rewritten rest)"

text \<open>The body of \<open>evaluateExpression\<close>, with the recursive call as a parameter.\<close>

definition evaluateExpression_body ::
  "js_runtime \<Rightarrow> (string \<Rightarrow> js_error + jsnum option) \<Rightarrow> string \<Rightarrow> jsnum \<Rightarrow> config
     \<Rightarrow> js_error + jsnum option" where
  "evaluateExpression_body R self expr xValue cfg =
     try_catch
       (case for_each (resolve_function R self cfg) expr (functionDefs cfg) of
          Inl e \<Rightarrow> Inl e
        | Inr processedExpr \<Rightarrow>
            run_expression R (preprocessExpression processedExpr) xValue
              (independentVar cfg) (variables cfg))
       (Inr None)"

text \<open>
  The engine's call stack is finite. \<open>depth\<close> is the number of nested activations of
  \<open>evaluateExpression\<close> it still allows: with none left, the call itself raises
  \<open>RangeError\<close>.
\<close>

fun evaluateExpression ::
  "js_runtime \<Rightarrow> nat \<Rightarrow> string \<Rightarrow> jsnum \<Rightarrow> config \<Rightarrow> js_error + jsnum option" where
  "evaluateExpression R 0 expr xValue cfg = Inl RangeError"
| "evaluateExpression R (Suc depth) expr xValue cfg =
     evaluateExpression_body R
       (\<lambda>innerExpr. evaluateExpression R depth innerExpr xValue cfg) expr xValue cfg"

subsection \<open>numericalDerivative\<close>

definition numericalDerivative ::
  "js_runtime \<Rightarrow> nat \<Rightarrow> string \<Rightarrow> jsnum \<Rightarrow> config \<Rightarrow> jsnum \<Rightarrow> js_error + jsnum option" where
  "numericalDerivative R depth expr xValue cfg h =
     (case evaluateExpression R depth expr (num_add R xValue h) cfg of
        Inl e \<Rightarrow> Inl e
      | Inr f1 \<Rightarrow>
          (case evaluateExpression R depth expr (num_sub R xValue h) cfg of
             Inl e \<Rightarrow> Inl e
           | Inr f2 \<Rightarrow>
               (case (f1, f2) of
                  (Some a, Some b) \<Rightarrow>
                    Inr (Some (num_div R (num_sub R a b) (num_mul R js_two h)))
                | _ \<Rightarrow> Inr None)))"

subsection \<open>Auxiliary notions\<close>

text \<open>\<open>adj R s\<close>: somewhere in \<open>s\<close> two neighbouring characters are related by \<open>R\<close>.\<close>

primrec adj :: "(char \<Rightarrow> char \<Rightarrow> bool) \<Rightarrow> string \<Rightarrow> bool" where
  "adj R [] = False"
| "adj R (c # cs) = (next_is (R c) cs \<or> adj R cs)"

text \<open>Relations that the inserted \<open>*\<close> and the two case-changing rules cannot affect.\<close>

definition star_free :: "(char \<Rightarrow> char \<Rightarrow> bool) \<Rightarrow> bool" where
  "star_free R = (\<forall>c. \<not> R c (CHR ''*'') \<and> \<not> R (CHR ''*'') c)"

definition pi_stable :: "(char \<Rightarrow> char \<Rightarrow> bool) \<Rightarrow> bool" where
  "pi_stable R =
     (\<forall>c. R (CHR ''P'') c = R (CHR ''p'') c \<and> R c (CHR ''P'') = R c (CHR ''p'')
        \<and> R (CHR ''I'') c = R (CHR ''i'') c \<and> R c (CHR ''I'') = R c (CHR ''i''))"

definition e_stable :: "(char \<Rightarrow> char \<Rightarrow> bool) \<Rightarrow> bool" where
  "e_stable R =
     (\<forall>c. R (CHR ''E'') c = R (CHR ''e'') c \<and> R c (CHR ''E'') = R c (CHR ''e''))"

text \<open>An occurrence of \<open>pi\<close>, in any case, that is not yet spelled \<open>PI\<close>.\<close>

definition pi_raw :: "char \<Rightarrow> char \<Rightarrow> bool" where
  "pi_raw c d =
     ((c = CHR ''p'' \<or> c = CHR ''P'') \<and> (d = CHR ''i'' \<or> d = CHR ''I'')
      \<and> \<not> (c = CHR ''P'' \<and> d = CHR ''I''))"

text \<open>The name of every function of the list is plain text as a pattern.\<close>

definition literal_names :: "function_def option list \<Rightarrow> bool" where
  "literal_names fs =
     list_all (\<lambda>func. case func of
                 None \<Rightarrow> True
               | Some f \<Rightarrow> regex_literal (or_default (func_dependentVar f) ''f'')) fs"


text \<open>
  \<open>nested R n bottom\<close> is \<open>evaluateExpression\<close> nested \<open>n\<close> activations deep, with
  \<open>bottom\<close> in the place of the next one. With the exhausted stack at the bottom it is
  \<open>evaluateExpression R n\<close>; a result that does not depend on \<open>bottom\<close> is reached
  without a recursive call at depth \<open>n\<close>.
\<close>

fun nested ::
  "js_runtime \<Rightarrow> nat \<Rightarrow> (string \<Rightarrow> js_error + jsnum option) \<Rightarrow> string \<Rightarrow> jsnum \<Rightarrow> config
     \<Rightarrow> js_error + jsnum option" where
  "nested R 0 bottom expr xValue cfg = bottom expr"
| "nested R (Suc n) bottom expr xValue cfg =
     evaluateExpression_body R (\<lambda>innerExpr. nested R n bottom innerExpr xValue cfg)
       expr xValue cfg"

text \<open>
  The characters of a number printed in plain decimal notation.
\<close>

definition plain_decimal_char :: "char \<Rightarrow> bool" where
  "plain_decimal_char c = (is_digit c \<or> c = CHR ''.'' \<or> c = CHR ''-'')"

subsection \<open>A small engine for the examples\<close>

text \<open>
  The theorems below hold for every engine. To instantiate them, this engine evaluates a
  body \<open>return name\<close> for a bound name and raises for every other body. Its arithmetic
  gives the IEEE-754 result where an operand is a NaN, where a zero is added, subtracted
  or multiplied by a finite number, where a number is subtracted from itself and where
  the divisor is a zero; elsewhere it answers NaN. It prints 0, 1 and 2, and rejects
  every pattern. It stands for no real engine.
\<close>

definition example_call :: "jsobj \<Rightarrow> string \<Rightarrow> js_error + jsval" where
  "example_call ctx body =
     (let name = drop 7 body in
      if take 7 body = ''return '' \<and> name \<noteq> [] \<and> list_all is_word_char name
           \<and> \<not> is_digit (hd name)
      then (case map_of ctx name of Some v \<Rightarrow> Inr v | None \<Rightarrow> Inl ReferenceError)
      else Inl SyntaxError)"

definition example_add :: "jsnum \<Rightarrow> jsnum \<Rightarrow> jsnum" where
  "example_add a b =
     (if number_isNaN a \<or> number_isNaN b then js_NaN
      else if number_isZero a \<and> number_isZero b then (if a = b then a else js_zero)
      else if number_isZero b then a
      else if number_isZero a then b
      else js_NaN)"

definition example_sub :: "jsnum \<Rightarrow> jsnum \<Rightarrow> jsnum" where
  "example_sub a b =
     (if number_isNaN a \<or> number_isNaN b then js_NaN
      else if a = b \<and> number_isFinite a then js_zero
      else if number_isZero b then a
      else js_NaN)"

definition example_mul :: "jsnum \<Rightarrow> jsnum \<Rightarrow> jsnum" where
  "example_mul a b =
     (if number_isNaN a \<or> number_isNaN b then js_NaN
      else if (number_isZero a \<and> number_isFinite b) \<or> (number_isZero b \<and> number_isFinite a)
      then (if bit a 63 = bit b 63 then js_zero else js_neg_zero)
      else js_NaN)"

definition example_div :: "jsnum \<Rightarrow> jsnum \<Rightarrow> jsnum" where
  "example_div a b =
     (if number_isNaN a \<or> number_isNaN b then js_NaN
      else if number_isZero b
      then (if number_isZero a then js_NaN
            else if bit a 63 = bit b 63 then js_Infinity else js_neg_Infinity)
      else js_NaN)"

definition example_runtime :: js_runtime where
  "example_runtime =
     \<lparr> call_new_function = example_call,
       number_to_string = (\<lambda>n. if n = js_zero then ''0'' else if n = js_one then ''1''
                                else if n = js_two then ''2'' else ''NaN''),
       regexp_replace = (\<lambda>pattern s callback. Inl SyntaxError),
       num_add = example_add,
       num_sub = example_sub,
       num_mul = example_mul,
       num_div = example_div \<rparr>"




definition identity_h :: function_def where
  "identity_h = \<lparr> func_id = JNum js_one, func_expr = ''x'', func_visible = JBool True,
       func_independentVar = ''x'', func_dependentVar = ''h'' \<rparr>"

definition identity_config :: config where
  "identity_config = \<lparr> independentVar = ''x'', currentFuncId = JNull,
       functionDefs = [Some identity_h], variables = [] \<rparr>"

subsection \<open>An engine that knows one pattern with an alternative\<close>






subsection \<open>An engine for the worked examples\<close>

text \<open>
  The Numbers 0.5, 3 and 4. The engine \<open>worked_runtime\<close> is the small engine above with
  the bodies, the products and the sums of two examples added, each with its IEEE-754
  result: \<open>2*PI + 3*x\<close> at \<open>x = 4\<close>, whose value is 18.283185307179586, and
  \<open>a*sin(b*x) + c\<close> with \<open>a = 2\<close>, \<open>b = 0.5\<close>, \<open>c = 1\<close> at \<open>x = 2\<close>, whose value is
  2.682941969615793 (\<open>sin 1\<close> is 0.8414709848078965). It prints that value, and reads
  the printed text back. A body is evaluated on the values that the context binds to its
  names.
\<close>

definition js_half :: jsnum where "js_half = 0x3FE0000000000000"

definition js_three :: jsnum where "js_three = 0x4008000000000000"

definition js_four :: jsnum where "js_four = 0x4010000000000000"

definition number_of :: "jsobj \<Rightarrow> string \<Rightarrow> jsnum option" where
  "number_of ctx name = (case map_of ctx name of Some (JNum n) \<Rightarrow> Some n | _ \<Rightarrow> None)"

definition worked_mul :: "jsnum \<Rightarrow> jsnum \<Rightarrow> jsnum" where
  "worked_mul a b =
     (if a = js_two \<and> b = Math_PI then 0x401921FB54442D18
      else if a = js_three \<and> b = js_four then 0x4028000000000000
      else if a = js_half \<and> b = js_two then js_one
      else if a = js_two \<and> b = 0x3FEAED548F090CEE then 0x3FFAED548F090CEE
      else example_mul a b)"

definition worked_add :: "jsnum \<Rightarrow> jsnum \<Rightarrow> jsnum" where
  "worked_add a b =
     (if a = 0x401921FB54442D18 \<and> b = 0x4028000000000000 then 0x4032487ED5110B46
      else if a = 0x3FFAED548F090CEE \<and> b = js_one then 0x400576AA47848677
      else example_add a b)"

definition worked_sin :: "jsnum \<Rightarrow> jsnum" where
  "worked_sin v = (if v = js_one then 0x3FEAED548F090CEE else js_NaN)"

definition worked_call :: "jsobj \<Rightarrow> string \<Rightarrow> js_error + jsval" where
  "worked_call ctx body =
     (if body = ''return 2*PI + 3*x''
      then (case (number_of ctx ''PI'', number_of ctx ''x'') of
              (Some p, Some v) \<Rightarrow>
                Inr (JNum (worked_add (worked_mul js_two p) (worked_mul js_three v)))
            | _ \<Rightarrow> Inl TypeError)
      else if body = ''return a*sin(b*x) + c'' \<or> body = ''return a*sin(b*x)+c''
      then (if map_of ctx ''sin'' = Some (JNative ''Math.sin'')
            then (case (number_of ctx ''a'', number_of ctx ''b'', number_of ctx ''x'',
                        number_of ctx ''c'') of
                    (Some a, Some b, Some v, Some c) \<Rightarrow>
                      Inr (JNum (worked_add (worked_mul a (worked_sin (worked_mul b v))) c))
                  | _ \<Rightarrow> Inl TypeError)
            else Inl TypeError)
      else if body = ''return 2.682941969615793'' then Inr (JNum 0x400576AA47848677)
      else example_call ctx body)"

definition worked_runtime :: js_runtime where
  "worked_runtime =
     example_runtime
       \<lparr> call_new_function := worked_call,
         number_to_string := (\<lambda>n. if n = 0x400576AA47848677 then ''2.682941969615793''
                                   else number_to_string example_runtime n),
         num_add := worked_add,
         num_mul := worked_mul \<rparr>"

text \<open>
  The function \<open>f(x) = a*sin(b*x) + c\<close> and the variables \<open>a = 2\<close>, \<open>b = 0.5\<close>,
  \<open>c = 1\<close>.
\<close>

definition worked_f :: function_def where
  "worked_f = \<lparr> func_id = JNum js_one, func_expr = ''a*sin(b*x) + c'',
       func_visible = JBool True, func_independentVar = ''x'', func_dependentVar = ''f'' \<rparr>"

definition worked_variables :: "variable list" where
  "worked_variables =
     [Variable (JStr ''a'') (JNum js_two), Variable (JStr ''b'') (JNum js_half),
      Variable (JStr ''c'') (JNum js_one)]"

definition worked_config :: config where
  "worked_config = \<lparr> independentVar = ''x'', currentFuncId = JNull,
       functionDefs = [Some worked_f], variables = worked_variables \<rparr>"

section \<open>The normalizer\<close>

lemma next_is_simps [simp]:
  "next_is A [] = False" "next_is A (d # cs) = A d"
  by (simp_all add: next_is_def)

lemma next_is_conj [simp]: "next_is (\<lambda>d. a \<and> B d) cs = (a \<and> next_is B cs)"
  by (cases cs) simp_all

subsection \<open>Which characters a rule can introduce\<close>

lemma replace_caret_set: "set (replace_caret s) \<subseteq> (set s - {CHR ''^''}) \<union> {CHR ''*''}"
  by (induction s) auto

lemma insert_mul_set: "set (insert_mul P Q s) \<subseteq> set s \<union> {CHR ''*''}"
  by (induction P Q s rule: insert_mul.induct) auto

lemma replace_pi_set: "set (replace_pi s) \<subseteq> set s \<union> {CHR ''P'', CHR ''I''}"
  by (induction s rule: replace_pi.induct) auto

lemma replace_e_set: "set (replace_e s) \<subseteq> set s \<union> {CHR ''E''}"
  by (induction s) auto

lemma no_caret_preprocess: "CHR ''^'' \<notin> set (preprocessExpression s)"
proof -
  have c: "CHR ''^'' \<notin> set (replace_caret s)"
    using replace_caret_set [of s] by auto
  have m: "CHR ''^'' \<notin> set t \<Longrightarrow> CHR ''^'' \<notin> set (insert_mul P Q t)" for P Q t
    using insert_mul_set [of P Q t] by auto
  have p: "CHR ''^'' \<notin> set t \<Longrightarrow> CHR ''^'' \<notin> set (replace_pi t)" for t
    using replace_pi_set [of t] by auto
  have e: "CHR ''^'' \<notin> set t \<Longrightarrow> CHR ''^'' \<notin> set (replace_e t)" for t
    using replace_e_set [of t] by auto
  show ?thesis
    unfolding preprocessExpression_def by (intro e p m c)
qed

subsection \<open>A rule does nothing where its pattern does not occur\<close>

lemma replace_caret_fix: "CHR ''^'' \<notin> set s \<Longrightarrow> replace_caret s = s"
  by (induction s) auto

lemma insert_mul_fix: "\<not> adj (\<lambda>c d. P c \<and> Q d) s \<Longrightarrow> insert_mul P Q s = s"
  by (induction P Q s rule: insert_mul.induct) auto

lemma replace_pi_fix: "\<not> adj pi_raw s \<Longrightarrow> replace_pi s = s"
proof (induction s rule: replace_pi.induct)
  case (1 c d cs)
  show ?case
  proof (cases "(c = CHR ''p'' \<or> c = CHR ''P'') \<and> (d = CHR ''i'' \<or> d = CHR ''I'')")
    case True
    from "1.prems" have "\<not> pi_raw c d" "\<not> adj pi_raw cs" by simp_all
    with True have "c = CHR ''P''" "d = CHR ''I''" by (auto simp: pi_raw_def)
    with True 1 \<open>\<not> adj pi_raw cs\<close> show ?thesis by simp
  next
    case False
    from "1.prems" have "\<not> adj pi_raw (d # cs)" by simp
    with False 1 show ?thesis by auto
  qed
qed simp_all

subsection \<open>The first character after a rule\<close>

lemma next_is_insert_mul: "next_is A (insert_mul P Q s) = next_is A s"
  by (induction P Q s rule: insert_mul.induct) auto

lemma next_is_replace_pi:
  "A (CHR ''P'') = A (CHR ''p'') \<Longrightarrow> next_is A (replace_pi s) = next_is A s"
  by (cases s rule: replace_pi.cases) auto

lemma next_is_replace_e:
  "A (CHR ''E'') = A (CHR ''e'') \<Longrightarrow> next_is A (replace_e s) = next_is A s"
  by (cases s) auto

subsection \<open>A rule leaves no occurrence of its own pattern\<close>

lemma insert_mul_done:
  assumes "\<And>c. \<not> (P c \<and> Q c)" "\<not> P (CHR ''*'')" "\<not> Q (CHR ''*'')"
  shows "\<not> adj (\<lambda>c d. P c \<and> Q d) (insert_mul P Q s)"
  using assms
  by (induction P Q s rule: insert_mul.induct)
     (auto simp: next_is_insert_mul split: if_splits)

lemma replace_pi_done: "\<not> adj pi_raw (replace_pi s)"
proof (induction s rule: replace_pi.induct)
  case (1 c d cs)
  have n: "next_is (pi_raw x) (replace_pi t) = next_is (pi_raw x) t" for x t
    by (rule next_is_replace_pi) (simp add: pi_raw_def)
  show ?case
  proof (cases "(c = CHR ''p'' \<or> c = CHR ''P'') \<and> (d = CHR ''i'' \<or> d = CHR ''I'')")
    case True
    have "\<not> next_is (pi_raw (CHR ''I'')) cs"
      by (cases cs) (simp_all add: pi_raw_def)
    then have "\<not> next_is (pi_raw (CHR ''I'')) (replace_pi cs)"
      by (simp add: n)
    moreover have "\<not> pi_raw (CHR ''P'') (CHR ''I'')"
      by (simp add: pi_raw_def)
    ultimately show ?thesis using True 1 by simp
  next
    case False
    then have "\<not> pi_raw c d" by (auto simp: pi_raw_def)
    with False 1 n show ?thesis by auto
  qed
qed simp_all

lemma replace_e_idem: "replace_e (replace_e s) = replace_e s"
proof (induction s)
  case Nil
  show ?case by simp
next
  case (Cons c cs)
  have "next_is e_excluded (replace_e cs) = next_is e_excluded cs"
    by (rule next_is_replace_e) (simp add: e_excluded_def)
  with Cons show ?case by simp
qed

subsection \<open>Later rules do not bring an earlier pattern back\<close>

lemma insert_mul_adj:
  "star_free R \<Longrightarrow> adj R (insert_mul P Q s) \<Longrightarrow> adj R s"
  by (induction P Q s rule: insert_mul.induct)
     (auto simp: next_is_insert_mul star_free_def split: if_splits)

lemma replace_e_adj:
  assumes "e_stable R"
  shows "adj R (replace_e s) = adj R s"
proof (induction s)
  case Nil
  show ?case by simp
next
  case (Cons c cs)
  have a: "R (CHR ''E'') d = R (CHR ''e'') d" for d
    using assms by (simp add: e_stable_def)
  have b: "R d (CHR ''E'') = R d (CHR ''e'')" for d
    using assms by (simp add: e_stable_def)
  have n: "next_is (R x) (replace_e cs) = next_is (R x) cs" for x
    by (rule next_is_replace_e) (rule b)
  show ?case
  proof (cases "(c = CHR ''e'' \<or> c = CHR ''E'') \<and> \<not> next_is e_excluded cs")
    case True
    then have "next_is (R (CHR ''E'')) cs = next_is (R c) cs"
      using a by (cases cs) auto
    with True Cons n show ?thesis by simp
  next
    case False
    with Cons n show ?thesis by auto
  qed
qed

lemma replace_pi_adj:
  assumes "pi_stable R"
  shows "adj R (replace_pi s) = adj R s"
proof (induction s rule: replace_pi.induct)
  case (1 c d cs)
  have l: "R (CHR ''P'') x = R (CHR ''p'') x" "R (CHR ''I'') x = R (CHR ''i'') x" for x
    using assms by (simp_all add: pi_stable_def)
  have r: "R x (CHR ''P'') = R x (CHR ''p'')" "R x (CHR ''I'') = R x (CHR ''i'')" for x
    using assms by (simp_all add: pi_stable_def)
  have n: "next_is (R x) (replace_pi t) = next_is (R x) t" for x t
    by (rule next_is_replace_pi) (rule r)
  show ?case
  proof (cases "(c = CHR ''p'' \<or> c = CHR ''P'') \<and> (d = CHR ''i'' \<or> d = CHR ''I'')")
    case True
    then have "R (CHR ''P'') (CHR ''I'') = R c d"
      using l r by auto
    moreover from True have "next_is (R (CHR ''I'')) cs = next_is (R d) cs"
      using l by (cases cs) auto
    ultimately show ?thesis
      using True 1 n by simp
  next
    case False
    with 1 n show ?thesis by auto
  qed
qed simp_all

subsection \<open>Idempotence\<close>

text \<open>
  Claim C5. The normalizer is idempotent: for every string \<open>s\<close>, normalizing the
  normalized text gives the same text again. None of the seven rules finds anything to
  rewrite in a text that has already been through all seven.
\<close>

theorem preprocessExpression_idempotent:
  "preprocessExpression (preprocessExpression s) = preprocessExpression s"
proof -
  define t where "t = preprocessExpression s"
  define s1 where "s1 = replace_caret s"
  define s2 where "s2 = insert_mul is_digit is_letter s1"
  define s3 where "s3 = insert_mul (\<lambda>c. c = CHR '')'') is_digit s2"
  define s4 where "s4 = insert_mul is_digit (\<lambda>c. c = CHR ''('') s3"
  define s5 where "s5 = insert_mul (\<lambda>c. c = CHR '')'') (\<lambda>c. c = CHR ''('') s4"
  define s6 where "s6 = replace_pi s5"
  have t: "t = replace_e s6"
    by (simp add: t_def preprocessExpression_def s1_def s2_def s3_def s4_def s5_def s6_def)
  let ?R2 = "\<lambda>c d. is_digit c \<and> is_letter d"
  let ?R3 = "\<lambda>c d. c = CHR '')'' \<and> is_digit d"
  let ?R4 = "\<lambda>c d. is_digit c \<and> d = CHR ''(''"
  let ?R5 = "\<lambda>c d. c = CHR '')'' \<and> d = CHR ''(''"
  have case_only: "adj R t = adj R s5" if "pi_stable R" "e_stable R" for R
    using that by (simp add: t s6_def replace_e_adj replace_pi_adj)
  have f1: "replace_caret t = t"
    using no_caret_preprocess [of s] by (simp add: t_def replace_caret_fix)
  have "\<not> adj ?R2 s2"
    unfolding s2_def by (rule insert_mul_done) (auto simp: is_digit_def is_letter_def)
  then have "\<not> adj ?R2 s5"
    unfolding s5_def s4_def s3_def
    by (auto dest!: insert_mul_adj [rotated] simp: star_free_def is_digit_def is_letter_def)
  then have f2: "insert_mul is_digit is_letter t = t"
    by (intro insert_mul_fix)
       (simp add: case_only pi_stable_def e_stable_def is_letter_def is_digit_def)
  have "\<not> adj ?R3 s3"
    unfolding s3_def by (rule insert_mul_done) (auto simp: is_digit_def)
  then have "\<not> adj ?R3 s5"
    unfolding s5_def s4_def
    by (auto dest!: insert_mul_adj [rotated] simp: star_free_def is_digit_def)
  then have f3: "insert_mul (\<lambda>c. c = CHR '')'') is_digit t = t"
    by (intro insert_mul_fix) (simp add: case_only pi_stable_def e_stable_def is_digit_def)
  have "\<not> adj ?R4 s4"
    unfolding s4_def by (rule insert_mul_done) (auto simp: is_digit_def)
  then have "\<not> adj ?R4 s5"
    unfolding s5_def
    by (auto dest!: insert_mul_adj [rotated] simp: star_free_def is_digit_def)
  then have f4: "insert_mul is_digit (\<lambda>c. c = CHR ''('') t = t"
    by (intro insert_mul_fix) (simp add: case_only pi_stable_def e_stable_def is_digit_def)
  have "\<not> adj ?R5 s5"
    unfolding s5_def by (rule insert_mul_done) auto
  then have f5: "insert_mul (\<lambda>c. c = CHR '')'') (\<lambda>c. c = CHR ''('') t = t"
    by (intro insert_mul_fix) (simp add: case_only pi_stable_def e_stable_def)
  have "\<not> adj pi_raw s6"
    unfolding s6_def by (rule replace_pi_done)
  then have "\<not> adj pi_raw t"
    by (simp add: t replace_e_adj e_stable_def pi_raw_def)
  then have f6: "replace_pi t = t"
    by (rule replace_pi_fix)
  have f7: "replace_e t = t"
    by (simp add: t replace_e_idem)
  have "preprocessExpression t = t"
    unfolding preprocessExpression_def by (simp only: f1 f2 f3 f4 f5 f6 f7)
  then show ?thesis by (simp add: t_def)
qed

subsection \<open>Implicit multiplication, an example\<close>

text \<open>
  For \<open>2pi + 3x\<close> the engine is asked for \<open>2*PI + 3*x\<close>, with \<open>PI\<close> bound to
  \<open>Math.PI\<close> and \<open>x\<close> to the point. The number it answers is the engine's.
\<close>

lemma preprocess_implicit_multiplication:
  "preprocessExpression ''2pi + 3x'' = ''2*PI + 3*x''"
  by (simp add: preprocessExpression_def is_digit_def is_letter_def e_excluded_def)

subsection \<open>Texts that the normalizer leaves as they are\<close>

lemma adj_none: "(\<And>c d. c \<in> set s \<Longrightarrow> d \<in> set s \<Longrightarrow> \<not> A c d) \<Longrightarrow> \<not> adj A s"
proof (induction s)
  case Nil
  show ?case by simp
next
  case (Cons c cs)
  have "\<not> adj A cs"
    by (rule Cons.IH) (simp add: Cons.prems)
  moreover have "\<not> next_is (A c) cs"
    using Cons.prems [of c] by (cases cs) (simp_all add: next_is_def)
  ultimately show ?case by simp
qed

lemma replace_e_fix: "CHR ''e'' \<notin> set s \<Longrightarrow> CHR ''E'' \<notin> set s \<Longrightarrow> replace_e s = s"
  by (induction s) auto

lemma plain_decimal_chars:
  assumes "plain_decimal_char c"
  shows "c \<noteq> CHR ''^''" "\<not> is_letter c" "c \<noteq> CHR ''(''" "c \<noteq> CHR '')''"
  using assms by (auto simp: plain_decimal_char_def is_digit_def is_letter_def)

lemma preprocess_plain_decimal:
  assumes "list_all plain_decimal_char s"
  shows "preprocessExpression s = s"
proof -
  have p: "plain_decimal_char c" if "c \<in> set s" for c
    using assms that by (simp add: list_all_iff)
  have 1: "replace_caret s = s"
    by (rule replace_caret_fix) (use p plain_decimal_chars(1) in blast)
  have 2: "insert_mul is_digit is_letter s = s"
    by (rule insert_mul_fix, rule adj_none) (use p plain_decimal_chars(2) in blast)
  have 3: "insert_mul (\<lambda>c. c = CHR '')'') is_digit s = s"
    by (rule insert_mul_fix, rule adj_none) (use p plain_decimal_chars(4) in blast)
  have 4: "insert_mul is_digit (\<lambda>c. c = CHR ''('') s = s"
    by (rule insert_mul_fix, rule adj_none) (use p plain_decimal_chars(3) in blast)
  have 5: "insert_mul (\<lambda>c. c = CHR '')'') (\<lambda>c. c = CHR ''('') s = s"
    by (rule insert_mul_fix, rule adj_none) (use p plain_decimal_chars(3) in blast)
  have l: "\<not> is_letter c" if "c \<in> set s" for c
    by (rule plain_decimal_chars(2), rule p, rule that)
  have 6: "replace_pi s = s"
  proof (rule replace_pi_fix, rule adj_none)
    fix c d
    assume "c \<in> set s" "d \<in> set s"
    then have "\<not> is_letter c" by (simp add: l)
    then show "\<not> pi_raw c d" by (auto simp: pi_raw_def is_letter_def)
  qed
  have 7: "replace_e s = s"
  proof (rule replace_e_fix)
    show "CHR ''e'' \<notin> set s" using l [of "CHR ''e''"] by (auto simp: is_letter_def)
    show "CHR ''E'' \<notin> set s" using l [of "CHR ''E''"] by (auto simp: is_letter_def)
  qed
  show ?thesis
    by (simp add: preprocessExpression_def 1 2 3 4 5 6 7)
qed

lemma preprocess_x: "preprocessExpression ''x'' = ''x''"
  by (simp add: preprocessExpression_def is_digit_def is_letter_def e_excluded_def)

lemma preprocess_sine:
  "preprocessExpression ''a*sin(b*x) + c'' = ''a*sin(b*x) + c''"
  "preprocessExpression ''a*sin(b*x)+c'' = ''a*sin(b*x)+c''"
  by (simp_all add: preprocessExpression_def is_digit_def is_letter_def e_excluded_def)

section \<open>The context\<close>

subsection \<open>Objects\<close>

lemma map_of_define_property:
  "map_of (define_property obj k v) = (map_of obj)(k \<mapsto> v)"
  by (induction obj) (auto simp: fun_eq_iff)

lemma keys_define_property:
  "set (map fst (define_property obj k v)) = insert k (set (map fst obj))"
  by (induction obj) auto

lemma distinct_define_property:
  "distinct (map fst obj) \<Longrightarrow> distinct (map fst (define_property obj k v))"
  by (induction obj) (auto simp: keys_define_property [simplified])

lemma map_of_spread_into:
  "distinct (map fst source) \<Longrightarrow>
     map_of (spread_into target source) = map_of target ++ map_of source"
proof (induction source arbitrary: target)
  case Nil
  show ?case by (simp add: spread_into_def)
next
  case (Cons p source)
  obtain k v where p: "p = (k, v)" by (cases p)
  from Cons.prems p have k: "k \<notin> dom (map_of source)"
    by (auto simp: dom_map_of_conv_image_fst)
  have "spread_into target (p # source) = spread_into (define_property target k v) source"
    by (simp add: spread_into_def p)
  also have "map_of \<dots> = (map_of target)(k \<mapsto> v) ++ map_of source"
    using Cons by (simp add: map_of_define_property)
  also have "\<dots> = map_of target ++ map_of (p # source)"
    using k by (auto simp: fun_eq_iff map_add_def p split: option.splits)
  finally show ?case .
qed

lemma map_of_assign_property:
  "map_of (assign_property obj k n) =
     (if k = ''__proto__'' then map_of obj else (map_of obj)(k \<mapsto> JNum n))"
  by (simp add: assign_property_def map_of_define_property)

subsection \<open>The variable context\<close>

lemma store_variable_cases:
  "store_variable obj e =
     (case e of
        Variable (JStr name) (JNum val) \<Rightarrow> assign_property obj name val
      | _ \<Rightarrow> obj)"
  by (cases e; cases "var_name e"; cases "var_value e") auto

lemma distinct_store_variable:
  "distinct (map fst obj) \<Longrightarrow> distinct (map fst (store_variable obj e))"
  by (auto simp: store_variable_cases assign_property_def distinct_define_property
           split: variable.splits jsval.splits)

lemma distinct_foldl_store:
  "distinct (map fst obj) \<Longrightarrow> distinct (map fst (foldl store_variable obj vs))"
  by (induction vs arbitrary: obj) (simp_all add: distinct_store_variable del: store_variable.simps)

lemma distinct_buildVariableContext: "distinct (map fst (buildVariableContext vs))"
  by (simp add: buildVariableContext_def distinct_foldl_store)

lemma buildVariableContext_snoc:
  "buildVariableContext (vs @ [e]) = store_variable (buildVariableContext vs) e"
  by (simp add: buildVariableContext_def del: store_variable.simps)

lemma store_variable_skip:
  "js_typeof (variable_name e) \<noteq> ''string'' \<or> js_typeof (variable_value e) \<noteq> ''number''
     \<Longrightarrow> store_variable obj e = obj"
  by auto

lemma buildVariableContext_skip:
  assumes "js_typeof (variable_name e) \<noteq> ''string'' \<or> js_typeof (variable_value e) \<noteq> ''number''"
  shows "buildVariableContext (xs @ e # ys) = buildVariableContext (xs @ ys)"
  using assms by (simp add: buildVariableContext_def store_variable_skip del: store_variable.simps)

lemma no_proto_store:
  "map_of obj ''__proto__'' = None \<Longrightarrow> map_of (store_variable obj e) ''__proto__'' = None"
  by (auto simp: store_variable_cases map_of_assign_property split: variable.splits jsval.splits)

lemma no_proto_foldl:
  "map_of obj ''__proto__'' = None \<Longrightarrow> map_of (foldl store_variable obj vs) ''__proto__'' = None"
  by (induction vs arbitrary: obj) (simp_all add: no_proto_store del: store_variable.simps)

lemma no_proto_buildVariableContext: "map_of (buildVariableContext vs) ''__proto__'' = None"
  by (simp add: buildVariableContext_def no_proto_foldl)

text \<open>
  Claim C2, as the specification states it, asks that an entry whose value is not a
  finite number be left out. The guard of the code is \<open>typeof value === 'number'\<close>, and
  NaN is a number: the entry \<open>{name: 'a', value: NaN}\<close> is stored.
\<close>

theorem buildVariableContext_keeps_NaN:
  "map_of (buildVariableContext [Variable (JStr ''a'') (JNum js_NaN)]) ''a'' = Some (JNum js_NaN)
     \<and> \<not> number_isFinite js_NaN"
  by (simp add: buildVariableContext_def assign_property_def number_isFinite_def js_NaN_def)

text \<open>
  Claim C2, amended. For every list of entries, \<open>buildVariableContext\<close> leaves out every
  entry whose name is not of type string or whose value is not of type number (NaN and
  the infinities are numbers and are kept): removing such an entry from the list changes
  nothing. It raises nothing and always returns an object, the empty one for the empty
  list. An entry with a string name and a number value binds the name to the value,
  replacing what an earlier entry bound to it; the only name that is never stored is
  \<open>__proto__\<close>.
\<close>

theorem buildVariableContext_typeof_filter:
  "(js_typeof (variable_name e) \<noteq> ''string'' \<or> js_typeof (variable_value e) \<noteq> ''number''
      \<longrightarrow> buildVariableContext (xs @ e # ys) = buildVariableContext (xs @ ys))
   \<and> buildVariableContext [] = []
   \<and> map_of (buildVariableContext (xs @ [Variable (JStr name) (JNum val)])) =
       (if name = ''__proto__'' then map_of (buildVariableContext xs)
        else (map_of (buildVariableContext xs))(name \<mapsto> JNum val))"
proof (intro conjI impI)
  assume "js_typeof (variable_name e) \<noteq> ''string'' \<or> js_typeof (variable_value e) \<noteq> ''number''"
  then show "buildVariableContext (xs @ e # ys) = buildVariableContext (xs @ ys)"
    by (rule buildVariableContext_skip)
next
  show "buildVariableContext [] = []"
    by (simp add: buildVariableContext_def)
next
  show "map_of (buildVariableContext (xs @ [Variable (JStr name) (JNum val)])) =
       (if name = ''__proto__'' then map_of (buildVariableContext xs)
        else (map_of (buildVariableContext xs))(name \<mapsto> JNum val))"
    by (simp add: buildVariableContext_snoc map_of_assign_property)
qed

theorem buildVariableContext_typeof_filter_witness:
  "js_typeof (variable_name (Variable (JStr ''b'') (JStr ''1''))) = ''string''
   \<and> js_typeof (variable_value (Variable (JStr ''b'') (JStr ''1''))) \<noteq> ''number''
   \<and> buildVariableContext
        ([Variable (JStr ''a'') (JNum js_one)] @ Variable (JStr ''b'') (JStr ''1'')
           # [Variable (JStr ''a'') (JNum js_two)])
       = [(''a'', JNum js_two)]"
  using buildVariableContext_typeof_filter
    [of "Variable (JStr ''b'') (JStr ''1'')" "[Variable (JStr ''a'') (JNum js_one)]"
        "[Variable (JStr ''a'') (JNum js_two)]"]
  by (simp add: buildVariableContext_def assign_property_def)

subsection \<open>The merged context\<close>

lemma distinct_safeMath: "distinct (map fst safeMath)"
  by (simp add: safeMath_def)

lemma map_of_allContext:
  "map_of (allContext iv x vars) =
     (map_of safeMath ++ map_of (buildVariableContext vars))(iv \<mapsto> JNum x)"
  by (simp add: allContext_def map_of_define_property map_of_spread_into
        distinct_buildVariableContext distinct_safeMath)

text \<open>
  Claim C6. Both evaluators look names up in \<open>allContext\<close>. A name bound by several
  sources has the value of the last one: the independent variable first, then the
  variable list, then the library.
\<close>

theorem allContext_shadowing:
  "map_of (allContext iv x vars) name =
     (if name = iv then Some (JNum x)
      else (case map_of (buildVariableContext vars) name of
              Some v \<Rightarrow> Some v
            | None \<Rightarrow> map_of safeMath name))"
  by (simp add: map_of_allContext map_add_def)

section \<open>The evaluators\<close>

lemma finite_or_null_Some:
  "finite_or_null v = Some n \<longleftrightarrow> v = JNum n \<and> number_isFinite n"
  by (cases v) auto


lemma evaluateExpression_returns:
  "\<exists>r. evaluateExpression R (Suc depth) expr x cfg = Inr r"
  by (simp add: evaluateExpression_body_def try_catch_def split: sum.splits)

lemma evaluateExpression_finite:
  "evaluateExpression R depth expr x cfg = Inr (Some v) \<Longrightarrow> number_isFinite v"
  by (cases depth)
     (auto simp: evaluateExpression_body_def try_catch_def run_expression_def
        finite_or_null_Some split: sum.splits)

text \<open>
  Claim C1. Neither evaluator lets an exception out. \<open>evaluateExpressionSimple\<close> returns
  the number the engine computed for the normalized text when that number is finite, and
  \<open>null\<close> when the engine raised (the text does not parse, a name is undefined, or
  anything else) or the result is not a finite number. \<open>evaluateExpression\<close>, called
  with room on the stack for itself, does the same for the text that composition
  resolution produced, and answers \<open>null\<close> also when that resolution raised.
\<close>

theorem evaluators_never_throw:
  "evaluateExpressionSimple R expr x iv vars =
     Inr (case call_new_function R (allContext iv x vars)
                 (''return '' @ preprocessExpression expr) of
            Inl e \<Rightarrow> None
          | Inr result \<Rightarrow> finite_or_null result)
   \<and> evaluateExpression R (Suc depth) expr x cfg =
     Inr (case for_each
                 (resolve_function R (\<lambda>innerExpr. evaluateExpression R depth innerExpr x cfg) cfg)
                 expr (functionDefs cfg) of
            Inl e \<Rightarrow> None
          | Inr processedExpr \<Rightarrow>
              (case call_new_function R (allContext (independentVar cfg) x (variables cfg))
                      (''return '' @ preprocessExpression processedExpr) of
                 Inl e \<Rightarrow> None
               | Inr result \<Rightarrow> finite_or_null result))
   \<and> (finite_or_null v = Some n \<longleftrightarrow> v = JNum n \<and> number_isFinite n)"
  by (simp add: evaluateExpressionSimple_def evaluateExpression_body_def try_catch_def
        run_expression_def finite_or_null_Some split: sum.splits)

lemma evaluateExpressionSimple_implicit_multiplication:
  "evaluateExpressionSimple R ''2pi + 3x'' x ''x'' [Variable (JStr ''pi'') (JNum Math_PI)] =
     Inr (case call_new_function R
                 (allContext ''x'' x [Variable (JStr ''pi'') (JNum Math_PI)])
                 ''return 2*PI + 3*x'' of
            Inl e \<Rightarrow> None
          | Inr result \<Rightarrow> finite_or_null result)"
  "map_of (allContext ''x'' x [Variable (JStr ''pi'') (JNum Math_PI)]) ''PI'' = Some (JNum Math_PI)"
  "map_of (allContext ''x'' x [Variable (JStr ''pi'') (JNum Math_PI)]) ''x'' = Some (JNum x)"
  by (simp_all add: evaluateExpressionSimple_def run_expression_def try_catch_def
        preprocess_implicit_multiplication map_of_allContext map_add_def
        buildVariableContext_def assign_property_def safeMath_def split: sum.splits)

subsection \<open>A body that returns a finite number\<close>

lemma simple_value:
  "call_new_function R (allContext iv x vars) (''return '' @ preprocessExpression e) = Inr (JNum w)
     \<Longrightarrow> number_isFinite w \<Longrightarrow> evaluateExpressionSimple R e x iv vars = Inr (Some w)"
  by (simp add: evaluateExpressionSimple_def run_expression_def try_catch_def)

lemma body_value:
  "for_each (resolve_function R self cfg) e (functionDefs cfg) = Inr p \<Longrightarrow>
   call_new_function R (allContext (independentVar cfg) x (variables cfg))
     (''return '' @ preprocessExpression p) = Inr (JNum w) \<Longrightarrow>
   number_isFinite w \<Longrightarrow> evaluateExpression_body R self e x cfg = Inr (Some w)"
  by (simp add: evaluateExpression_body_def run_expression_def try_catch_def)

subsection \<open>The engine of the worked examples\<close>

lemma worked_engine:
  "call_new_function worked_runtime = worked_call"
  "number_to_string worked_runtime 0x400576AA47848677 = ''2.682941969615793''"
  "num_add worked_runtime = worked_add"
  "num_mul worked_runtime = worked_mul"
  by (simp_all add: worked_runtime_def)

lemma worked_arithmetic:
  "worked_add (worked_mul js_two (worked_sin (worked_mul js_half js_two))) js_one
     = 0x400576AA47848677"
  "worked_add (worked_mul js_two Math_PI) (worked_mul js_three js_four) = 0x4032487ED5110B46"
  by (simp_all add: worked_add_def worked_mul_def worked_sin_def js_one_def js_two_def
        js_half_def js_three_def js_four_def Math_PI_def)

lemma worked_finite:
  "number_isFinite js_two" "number_isFinite js_four"
  "number_isFinite 0x400576AA47848677" "number_isFinite 0x4032487ED5110B46"
  by (simp_all add: number_isFinite_def js_two_def js_four_def)

lemma worked_pi_context:
  "number_of (allContext ''x'' js_four [Variable (JStr ''pi'') (JNum Math_PI)]) ''PI''
     = Some Math_PI"
  "number_of (allContext ''x'' js_four [Variable (JStr ''pi'') (JNum Math_PI)]) ''x''
     = Some js_four"
  by (simp_all add: number_of_def evaluateExpressionSimple_implicit_multiplication(2,3))

subsection \<open>Implicit multiplication, evaluated\<close>

text \<open>
  Claim C7. The normalizer turns \<open>2pi + 3x\<close> into \<open>2*PI + 3*x\<close>: a \<open>*\<close> between each
  digit and the letter after it, and \<open>pi\<close> spelled as the library constant \<open>PI\<close>. In
  the context of the call \<open>PI\<close> is \<open>Math.PI\<close> and \<open>x\<close> is 4. So, for an engine that
  evaluates the body \<open>return 2*PI + 3*x\<close> on these bindings with its arithmetic, to a
  finite Number, \<open>evaluateExpressionSimple("2pi + 3x", 4, {variables: [{name: "pi",
  value: Math.PI}]})\<close> returns \<open>2 * Math.PI + 3 * 4\<close>.
\<close>

theorem implicit_multiplication_example:
  "preprocessExpression ''2pi + 3x'' = ''2*PI + 3*x''
   \<and> map_of (allContext ''x'' js_four [Variable (JStr ''pi'') (JNum Math_PI)]) ''PI''
       = Some (JNum Math_PI)
   \<and> map_of (allContext ''x'' js_four [Variable (JStr ''pi'') (JNum Math_PI)]) ''x''
       = Some (JNum js_four)
   \<and> (call_new_function R (allContext ''x'' js_four [Variable (JStr ''pi'') (JNum Math_PI)])
         ''return 2*PI + 3*x''
         = Inr (JNum (num_add R (num_mul R js_two Math_PI) (num_mul R js_three js_four)))
       \<and> number_isFinite (num_add R (num_mul R js_two Math_PI) (num_mul R js_three js_four))
      \<longrightarrow> evaluateExpressionSimple R ''2pi + 3x'' js_four ''x''
            [Variable (JStr ''pi'') (JNum Math_PI)]
          = Inr (Some (num_add R (num_mul R js_two Math_PI) (num_mul R js_three js_four))))"
proof (intro conjI impI)
  show "preprocessExpression ''2pi + 3x'' = ''2*PI + 3*x''"
    by (rule preprocess_implicit_multiplication)
  show "map_of (allContext ''x'' js_four [Variable (JStr ''pi'') (JNum Math_PI)]) ''PI''
       = Some (JNum Math_PI)"
    by (rule evaluateExpressionSimple_implicit_multiplication(2))
  show "map_of (allContext ''x'' js_four [Variable (JStr ''pi'') (JNum Math_PI)]) ''x''
       = Some (JNum js_four)"
    by (rule evaluateExpressionSimple_implicit_multiplication(3))
  assume "call_new_function R (allContext ''x'' js_four [Variable (JStr ''pi'') (JNum Math_PI)])
         ''return 2*PI + 3*x''
         = Inr (JNum (num_add R (num_mul R js_two Math_PI) (num_mul R js_three js_four)))
       \<and> number_isFinite (num_add R (num_mul R js_two Math_PI) (num_mul R js_three js_four))"
  then show "evaluateExpressionSimple R ''2pi + 3x'' js_four ''x''
            [Variable (JStr ''pi'') (JNum Math_PI)]
          = Inr (Some (num_add R (num_mul R js_two Math_PI) (num_mul R js_three js_four)))"
    by (simp add: evaluateExpressionSimple_implicit_multiplication(1))
qed

theorem implicit_multiplication_example_witness:
  "call_new_function worked_runtime
       (allContext ''x'' js_four [Variable (JStr ''pi'') (JNum Math_PI)]) ''return 2*PI + 3*x''
     = Inr (JNum 0x4032487ED5110B46)
   \<and> num_add worked_runtime (num_mul worked_runtime js_two Math_PI)
        (num_mul worked_runtime js_three js_four) = 0x4032487ED5110B46
   \<and> evaluateExpressionSimple worked_runtime ''2pi + 3x'' js_four ''x''
        [Variable (JStr ''pi'') (JNum Math_PI)] = Inr (Some 0x4032487ED5110B46)"
proof -
  have call: "worked_call (allContext ''x'' js_four [Variable (JStr ''pi'') (JNum Math_PI)])
      ''return 2*PI + 3*x'' = Inr (JNum 0x4032487ED5110B46)"
    by (simp add: worked_call_def worked_pi_context worked_arithmetic)
  show ?thesis
    using implicit_multiplication_example [of worked_runtime]
    by (simp add: worked_engine worked_arithmetic worked_finite call)
qed

section \<open>Composition\<close>

subsection \<open>Matching a call\<close>

lemma call_at_no_paren: "CHR '')'' \<notin> set s \<Longrightarrow> call_at name s = None"
proof -
  assume a: "CHR '')'' \<notin> set s"
  have "CHR '')'' \<notin> set (drop (length name + 1) s)"
    using a in_set_dropD by fastforce
  then show ?thesis
    by (auto simp: call_at_def Let_def)
qed

lemma call_at_Some:
  assumes "call_at name s = Some (m, i, rest)"
  shows "CHR '')'' \<notin> set i" "m = name @ ''('' @ i @ '')''" "s = m @ rest" "i \<noteq> []"
proof -
  define body where "body = drop (length name + 1) s"
  define tail where "tail = dropWhile (\<lambda>c. c \<noteq> CHR '')'') body"
  from assms have pre: "take (length name + 1) s = name @ ''(''"
    and i: "i = takeWhile (\<lambda>c. c \<noteq> CHR '')'') body"
    and ne: "i \<noteq> []" "tail \<noteq> []"
    and rest: "rest = tl tail"
    and m: "m = name @ ''('' @ i @ '')''"
    by (auto simp: call_at_def Let_def body_def tail_def split: if_splits)
  show "CHR '')'' \<notin> set i"
    unfolding i using set_takeWhileD by fastforce
  show "m = name @ ''('' @ i @ '')''" by (rule m)
  show "i \<noteq> []" by (rule ne)
  have "hd tail = CHR '')''"
    using ne(2) hd_dropWhile [of "\<lambda>c. c \<noteq> CHR '')''" body] by (simp add: tail_def)
  with ne(2) rest have tail: "tail = CHR '')'' # rest"
    by (cases tail) auto
  have "s = take (length name + 1) s @ body"
    by (simp add: body_def)
  also have "body = i @ tail"
    by (simp add: i tail_def)
  finally show "s = m @ rest"
    using pre by (simp add: m tail)
qed

lemma replace_calls_no_paren:
  "CHR '')'' \<notin> set s \<Longrightarrow> replace_calls name callback s = s"
  by (induction s) (simp_all add: call_at_no_paren)

lemma replace_calls_prefix:
  "\<forall>k<length pre. call_at name (drop k (pre @ s)) = None \<Longrightarrow>
     replace_calls name callback (pre @ s) = pre @ replace_calls name callback s"
proof (induction pre)
  case Nil
  show ?case by simp
next
  case (Cons c pre)
  from Cons.prems have "call_at name (drop 0 ((c # pre) @ s)) = None"
    by blast
  then have here: "call_at name (c # pre @ s) = None"
    by simp
  have "\<forall>k<length pre. call_at name (drop k (pre @ s)) = None"
  proof (intro allI impI)
    fix k
    assume "k < length pre"
    then have "call_at name (drop (Suc k) ((c # pre) @ s)) = None"
      using Cons.prems by (metis Suc_less_eq length_Cons)
    then show "call_at name (drop k (pre @ s)) = None"
      by simp
  qed
  with Cons.IH here show ?case by simp
qed

lemma replace_calls_cong:
  "(\<And>m i. CHR '')'' \<notin> set i \<Longrightarrow> callback m (Some i) = callback' m (Some i))
     \<Longrightarrow> replace_calls name callback s = replace_calls name callback' s"
proof (induction name callback s rule: replace_calls.induct)
  case (1 name callback)
  show ?case by simp
next
  case (2 name callback c cs)
  show ?case
  proof (cases "call_at name (c # cs)")
    case None
    with 2 show ?thesis by simp
  next
    case (Some found)
    obtain m i rest where f: "found = (m, i, rest)" by (cases found)
    with Some have "CHR '')'' \<notin> set i" by (auto dest: call_at_Some(1))
    then have "callback m (Some i) = callback' m (Some i)"
      by (rule "2.prems")
    moreover have "replace_calls name callback rest = replace_calls name callback' rest"
      using "2.IH"(2) Some f "2.prems" by simp
    ultimately show ?thesis
      using Some f by simp
  qed
qed


subsection \<open>Substitution of a call\<close>

text \<open>
  Claim C8. Let \<open>f\<close> be a function that the loop does not skip and whose name is plain
  text as a pattern, and let the text be \<open>pre @ s\<close>, where no call of \<open>f\<close> starts inside
  \<open>pre\<close> and \<open>s\<close> starts with the call \<open>m = name(inner)\<close>. Then the rewritten text is
  \<open>pre\<close>, followed by the replacement of \<open>m\<close>, followed by the rewriting of the rest.
  The replacement is the text of the number that the expression of \<open>f\<close> evaluates to at
  the value of \<open>inner\<close> when both evaluations return a number; when either of them
  returns \<open>null\<close> or raises, it is \<open>m\<close> itself, unchanged.
\<close>

theorem composition_substitution:
  assumes "\<not> strict_equals (func_id f) (currentFuncId cfg)"
    and "func_visible f \<noteq> JBool False"
    and "name = or_default (func_dependentVar f) ''f''"
    and "regex_literal name"
    and "\<forall>k<length pre. call_at name (drop k (pre @ s)) = None"
    and "call_at name s = Some (m, inner, rest)"
  shows "s = m @ rest \<and> m = name @ ''('' @ inner @ '')''
     \<and> resolve_function R self cfg (pre @ s) (Some f) =
         Inr (pre
              @ (case self inner of
                   Inr (Some innerValue) \<Rightarrow>
                     (case evaluateExpressionSimple R (func_expr f) innerValue
                             (or_default (func_independentVar f) ''x'') (variables cfg) of
                        Inr (Some funcValue) \<Rightarrow> number_to_string R funcValue
                      | _ \<Rightarrow> m)
                 | _ \<Rightarrow> m)
              @ replace_calls name (substitute_call R self cfg f) rest)"
proof -
  let ?cb = "substitute_call R self cfg f"
  from assms(6) have parts: "s = m @ rest" "m = name @ ''('' @ inner @ '')''"
    by (rule call_at_Some(3), rule call_at_Some(2))
  from assms(6) have "s \<noteq> []"
    by (auto simp: call_at_def)
  then obtain c cs where s: "s = c # cs"
    by (cases s) auto
  have "replace_calls name ?cb s = ?cb m (Some inner) @ replace_calls name ?cb rest"
    using assms(6) unfolding s by simp
  moreover have "replace_calls name ?cb (pre @ s) = pre @ replace_calls name ?cb s"
    using assms(5) by (rule replace_calls_prefix)
  moreover have "resolve_function R self cfg (pre @ s) (Some f) =
      Inr (replace_calls name ?cb (pre @ s))"
    using assms(1-4) by (simp add: resolve_function_def Let_def)
  moreover have "?cb m (Some inner) =
      (case self inner of
         Inr (Some innerValue) \<Rightarrow>
           (case evaluateExpressionSimple R (func_expr f) innerValue
                   (or_default (func_independentVar f) ''x'') (variables cfg) of
              Inr (Some funcValue) \<Rightarrow> number_to_string R funcValue
            | _ \<Rightarrow> m)
       | _ \<Rightarrow> m)"
    by (simp add: substitute_call_def split: sum.splits option.splits)
  ultimately show ?thesis
    using parts by simp
qed

theorem composition_substitution_witness:
  "\<not> strict_equals (func_id identity_h) (currentFuncId identity_config)
   \<and> func_visible identity_h \<noteq> JBool False
   \<and> ''h'' = or_default (func_dependentVar identity_h) ''f''
   \<and> regex_literal ''h''
   \<and> call_at ''h'' ''1+h(x)'' = None \<and> call_at ''h'' ''+h(x)'' = None
   \<and> call_at ''h'' ''h(x)'' = Some (''h(x)'', ''x'', [])
   \<and> resolve_function example_runtime
        (\<lambda>innerExpr. evaluateExpression example_runtime (Suc 0) innerExpr js_two identity_config)
        identity_config ''1+h(x)'' (Some identity_h) = Inr ''1+2''"
proof -
  let ?self = "\<lambda>innerExpr. evaluateExpression example_runtime (Suc 0) innerExpr js_two identity_config"
  have a1: "\<not> strict_equals (func_id identity_h) (currentFuncId identity_config)"
    by (simp add: identity_h_def identity_config_def)
  have a2: "func_visible identity_h \<noteq> JBool False"
    by (simp add: identity_h_def)
  have a3: "''h'' = or_default (func_dependentVar identity_h) ''f''"
    by (simp add: identity_h_def or_default_def)
  have a4: "regex_literal ''h''"
    by (simp add: regex_literal_def regex_syntax_char_def is_word_char_def is_letter_def)
  have n0: "call_at ''h'' ''1+h(x)'' = None" and n1: "call_at ''h'' ''+h(x)'' = None"
    by (simp_all add: call_at_def)
  have a5: "\<forall>k<length ''1+''. call_at ''h'' (drop k (''1+'' @ ''h(x)'')) = None"
    using n0 n1 by (auto simp: less_Suc_eq)
  have a6: "call_at ''h'' ''h(x)'' = Some (''h(x)'', ''x'', [])"
    by (simp add: call_at_def)
  have inner: "?self ''x'' = Inr (Some js_two)"
    by (simp add: evaluateExpression_body_def identity_config_def identity_h_def
          resolve_function_def or_default_def regex_literal_def regex_syntax_char_def is_word_char_def
          is_letter_def is_digit_def call_at_def try_catch_def run_expression_def
          preprocessExpression_def e_excluded_def example_runtime_def example_call_def
          map_of_allContext number_isFinite_def js_two_def)
  have simple: "evaluateExpressionSimple example_runtime (func_expr identity_h) js_two
          (or_default (func_independentVar identity_h) ''x'') (variables identity_config)
        = Inr (Some js_two)"
    by (simp add: evaluateExpressionSimple_def identity_config_def identity_h_def
          or_default_def regex_literal_def regex_syntax_char_def is_word_char_def
          is_letter_def is_digit_def try_catch_def run_expression_def
          preprocessExpression_def e_excluded_def example_runtime_def example_call_def
          map_of_allContext number_isFinite_def js_two_def)
  have str: "number_to_string example_runtime js_two = ''2''"
    by (simp add: example_runtime_def js_two_def js_zero_def js_one_def)
  from composition_substitution
    [OF a1 a2 a3 a4 a5 a6, of example_runtime ?self, THEN conjunct2, THEN conjunct2]
  have "resolve_function example_runtime ?self identity_config (''1+'' @ ''h(x)'') (Some identity_h)
      = Inr (''1+'' @ ''2'' @ replace_calls ''h'' (substitute_call example_runtime ?self identity_config identity_h) [])"
    by (simp only: inner simple str sum.case option.case)
  then have "resolve_function example_runtime ?self identity_config ''1+h(x)'' (Some identity_h)
      = Inr ''1+2''"
    by simp
  with a1 a2 a3 a4 n0 n1 a6 show ?thesis
    by (intro conjI)
qed

subsection \<open>Depth of the recursion\<close>

text \<open>
  The capture group contains no \<open>)\<close>, and a text without \<open>)\<close> contains no call: the
  recursive call on the group makes no recursive call of its own.
\<close>

lemma substitute_call_cong:
  "self i = self' i \<Longrightarrow>
     substitute_call R self cfg f m (Some i) = substitute_call R self' cfg f m (Some i)"
  by (simp add: substitute_call_def)

lemma resolve_function_cong:
  assumes "\<And>i. CHR '')'' \<notin> set i \<Longrightarrow> self i = self' i"
    and "case func of None \<Rightarrow> True
         | Some f \<Rightarrow> regex_literal (or_default (func_dependentVar f) ''f'')"
  shows "resolve_function R self cfg s func = resolve_function R self' cfg s func"
proof (cases func)
  case None
  then show ?thesis by (simp add: resolve_function_def)
next
  case (Some f)
  have "replace_calls name (substitute_call R self cfg f) s =
        replace_calls name (substitute_call R self' cfg f) s" for name
    by (rule replace_calls_cong) (rule substitute_call_cong, rule assms(1))
  with Some assms(2) show ?thesis
    by (simp add: resolve_function_def Let_def)
qed

lemma for_each_cong:
  assumes "\<And>i. CHR '')'' \<notin> set i \<Longrightarrow> self i = self' i"
  shows "literal_names fs \<Longrightarrow>
     for_each (resolve_function R self cfg) s fs = for_each (resolve_function R self' cfg) s fs"
proof (induction fs arbitrary: s)
  case Nil
  show ?case by simp
next
  case (Cons func fs)
  from Cons.prems have l: "literal_names fs"
    and f: "case func of None \<Rightarrow> True
            | Some f \<Rightarrow> regex_literal (or_default (func_dependentVar f) ''f'')"
    by (simp_all add: literal_names_def)
  have "resolve_function R self cfg s func = resolve_function R self' cfg s func"
    using assms f by (rule resolve_function_cong)
  with Cons.IH [OF l] show ?case
    by (simp split: sum.splits)
qed

lemma resolve_function_no_paren:
  assumes "CHR '')'' \<notin> set s"
    and "case func of None \<Rightarrow> True
         | Some f \<Rightarrow> regex_literal (or_default (func_dependentVar f) ''f'')"
  shows "resolve_function R self cfg s func = Inr s"
  using assms
  by (cases func) (simp_all add: resolve_function_def Let_def replace_calls_no_paren)

lemma for_each_no_paren:
  "CHR '')'' \<notin> set s \<Longrightarrow> literal_names fs \<Longrightarrow>
     for_each (resolve_function R self cfg) s fs = Inr s"
proof (induction fs)
  case Nil
  show ?case by simp
next
  case (Cons func fs)
  from Cons.prems have l: "literal_names fs"
    and f: "case func of None \<Rightarrow> True
            | Some f \<Rightarrow> regex_literal (or_default (func_dependentVar f) ''f'')"
    by (simp_all add: literal_names_def)
  from Cons.prems(1) f have "resolve_function R self cfg s func = Inr s"
    by (rule resolve_function_no_paren)
  with Cons l show ?case by simp
qed

lemma body_no_paren:
  assumes "CHR '')'' \<notin> set i" "literal_names (functionDefs cfg)"
  shows "evaluateExpression_body R self i x cfg = evaluateExpression_body R self' i x cfg"
  using assms by (simp add: evaluateExpression_body_def for_each_no_paren)

lemma body_depth_two:
  assumes "literal_names (functionDefs cfg)"
  shows "evaluateExpression_body R (\<lambda>i. evaluateExpression_body R self i x cfg) expr x cfg =
         evaluateExpression_body R (\<lambda>i. evaluateExpression_body R self' i x cfg) expr x cfg"
proof -
  have "for_each (resolve_function R (\<lambda>i. evaluateExpression_body R self i x cfg) cfg)
          expr (functionDefs cfg) =
        for_each (resolve_function R (\<lambda>i. evaluateExpression_body R self' i x cfg) cfg)
          expr (functionDefs cfg)"
  proof (rule for_each_cong)
    fix i :: string
    assume "CHR '')'' \<notin> set i"
    then show "evaluateExpression_body R self i x cfg = evaluateExpression_body R self' i x cfg"
      using assms by (rule body_no_paren)
  qed (rule assms)
  then show ?thesis
    by (simp add: evaluateExpression_body_def)
qed

lemma evaluateExpression_depth_two:
  assumes "literal_names (functionDefs cfg)"
  shows "evaluateExpression R (Suc (Suc depth)) expr x cfg =
         evaluateExpression R (Suc (Suc 0)) expr x cfg"
  unfolding evaluateExpression.simps by (rule body_depth_two [OF assms])

lemma nested_evaluateExpression:
  "nested R n (\<lambda>e. Inl RangeError) expr x cfg = evaluateExpression R n expr x cfg"
  by (induction n arbitrary: expr) simp_all

subsection \<open>A function name that is a pattern\<close>















subsection \<open>Reference cycles\<close>











subsection \<open>Composition and direct evaluation, an example\<close>

lemma composition_sine:
  assumes F: "func_expr F = ''a*sin(b*x) + c''" "func_dependentVar F = ''f''"
      "func_independentVar F = ''x''"
    and active: "\<not> strict_equals (func_id F) (currentFuncId cfg)" "func_visible F \<noteq> JBool False"
    and cfg: "functionDefs cfg = [Some F]" "independentVar cfg = ''x''"
    and x: "number_isFinite x"
    and reads: "call_new_function R (allContext ''x'' x (variables cfg)) ''return x'' = Inr (JNum x)"
    and direct: "call_new_function R (allContext ''x'' x (variables cfg)) ''return a*sin(b*x)+c''
        = Inr (JNum w)"
    and blanks: "call_new_function R (allContext ''x'' x (variables cfg)) ''return a*sin(b*x) + c''
        = Inr (JNum w)"
    and w: "number_isFinite w" "list_all plain_decimal_char (number_to_string R w)"
    and printed: "call_new_function R (allContext ''x'' x (variables cfg))
        (''return '' @ number_to_string R w) = Inr (JNum w)"
  shows "evaluateExpression R (Suc (Suc depth)) ''f(x)'' x cfg = Inr (Some w)"
    and "evaluateExpressionSimple R ''a*sin(b*x)+c'' x ''x'' (variables cfg) = Inr (Some w)"
proof -
  let ?self = "\<lambda>innerExpr. evaluateExpression R (Suc depth) innerExpr x cfg"
  note evaluateExpression.simps [simp del]
  have lit: "regex_literal ''f''"
    by (simp add: regex_literal_def regex_syntax_char_def)
  have names: "literal_names (functionDefs cfg)"
    by (simp add: cfg literal_names_def F or_default_def lit)
  have "for_each (resolve_function R self cfg) ''x'' (functionDefs cfg) = Inr ''x''" for self
    by (rule for_each_no_paren [OF _ names]) simp
  then have inner: "?self ''x'' = Inr (Some x)"
    unfolding evaluateExpression.simps
    by (rule body_value) (simp_all add: preprocess_x cfg reads x)
  have func: "evaluateExpressionSimple R (func_expr F) x
      (or_default (func_independentVar F) ''x'') (variables cfg) = Inr (Some w)"
    by (rule simple_value) (simp_all add: F or_default_def preprocess_sine blanks w)
  have call: "call_at ''f'' ''f(x)'' = Some (''f(x)'', ''x'', [])"
    by (simp add: call_at_def Let_def)
  have sub: "substitute_call R ?self cfg F ''f(x)'' (Some ''x'') = number_to_string R w"
    by (simp add: substitute_call_def inner func)
  have "replace_calls ''f'' (substitute_call R ?self cfg F) ''f(x)'' = number_to_string R w"
    by (simp add: call sub)
  then have "resolve_function R ?self cfg ''f(x)'' (Some F) = Inr (number_to_string R w)"
    using active by (simp add: resolve_function_def Let_def F or_default_def lit)
  then have "for_each (resolve_function R ?self cfg) ''f(x)'' (functionDefs cfg)
      = Inr (number_to_string R w)"
    by (simp add: cfg)
  then show "evaluateExpression R (Suc (Suc depth)) ''f(x)'' x cfg = Inr (Some w)"
    unfolding evaluateExpression.simps(2) [of R "Suc depth"]
    by (rule body_value) (use printed in \<open>simp_all add: preprocess_plain_decimal w cfg\<close>)
  show "evaluateExpressionSimple R ''a*sin(b*x)+c'' x ''x'' (variables cfg) = Inr (Some w)"
    by (rule simple_value) (simp_all add: preprocess_sine direct w)
qed

lemma worked_fields:
  "func_expr worked_f = ''a*sin(b*x) + c''" "func_dependentVar worked_f = ''f''"
  "func_independentVar worked_f = ''x''" "func_id worked_f = JNum js_one"
  "func_visible worked_f = JBool True"
  "functionDefs worked_config = [Some worked_f]" "independentVar worked_config = ''x''"
  "currentFuncId worked_config = JNull" "variables worked_config = worked_variables"
  by (simp_all add: worked_f_def worked_config_def)

lemma worked_context:
  "map_of (allContext ''x'' js_two worked_variables) ''sin'' = Some (JNative ''Math.sin'')"
  "number_of (allContext ''x'' js_two worked_variables) ''a'' = Some js_two"
  "number_of (allContext ''x'' js_two worked_variables) ''b'' = Some js_half"
  "number_of (allContext ''x'' js_two worked_variables) ''c'' = Some js_one"
  "number_of (allContext ''x'' js_two worked_variables) ''x'' = Some js_two"
  "map_of (allContext ''x'' js_two worked_variables) ''x'' = Some (JNum js_two)"
  by (simp_all add: number_of_def map_of_allContext map_add_def worked_variables_def
        buildVariableContext_def assign_property_def safeMath_def)

lemma worked_calls:
  "worked_call (allContext ''x'' js_two worked_variables) ''return x'' = Inr (JNum js_two)"
  "worked_call (allContext ''x'' js_two worked_variables) ''return a*sin(b*x)+c''
     = Inr (JNum 0x400576AA47848677)"
  "worked_call (allContext ''x'' js_two worked_variables) ''return a*sin(b*x) + c''
     = Inr (JNum 0x400576AA47848677)"
  "worked_call (allContext ''x'' js_two worked_variables) ''return 2.682941969615793''
     = Inr (JNum 0x400576AA47848677)"
  by (simp_all add: worked_call_def worked_context worked_arithmetic example_call_def
        is_word_char_def is_letter_def is_digit_def)

text \<open>
  Claim C9. Let \<open>f\<close> be the only function, active, with the expression
  \<open>a*sin(b*x) + c\<close>, the name \<open>f\<close> and the independent variable \<open>x\<close>; let \<open>x\<close> be
  the independent variable of the call and the point be finite. For an engine that, in
  the context of the call, reads \<open>x\<close>, evaluates \<open>a*sin(b*x)+c\<close> to a finite Number
  \<open>w\<close> with or without the blanks around \<open>+\<close>, prints \<open>w\<close> in plain decimal notation
  and reads the printed text back as \<open>w\<close>: with room for two activations or more,
  \<open>evaluateExpression("f(x)", x, {functions: [f], variables})\<close> equals
  \<open>evaluateExpressionSimple("a*sin(b*x)+c", x, {variables})\<close>, and both are \<open>w\<close>. The
  instance of the claim is \<open>a = 2\<close>, \<open>b = 0.5\<close>, \<open>c = 1\<close> at the point 2.
\<close>

theorem composition_agrees_with_direct_evaluation:
  "func_expr F = ''a*sin(b*x) + c'' \<and> func_dependentVar F = ''f''
     \<and> func_independentVar F = ''x''
     \<and> \<not> strict_equals (func_id F) (currentFuncId cfg) \<and> func_visible F \<noteq> JBool False
     \<and> functionDefs cfg = [Some F] \<and> independentVar cfg = ''x''
     \<and> number_isFinite x
     \<and> call_new_function R (allContext ''x'' x (variables cfg)) ''return x'' = Inr (JNum x)
     \<and> call_new_function R (allContext ''x'' x (variables cfg)) ''return a*sin(b*x)+c''
         = Inr (JNum w)
     \<and> call_new_function R (allContext ''x'' x (variables cfg)) ''return a*sin(b*x) + c''
         = Inr (JNum w)
     \<and> number_isFinite w \<and> list_all plain_decimal_char (number_to_string R w)
     \<and> call_new_function R (allContext ''x'' x (variables cfg))
         (''return '' @ number_to_string R w) = Inr (JNum w)
   \<longrightarrow> evaluateExpression R (Suc (Suc depth)) ''f(x)'' x cfg
         = evaluateExpressionSimple R ''a*sin(b*x)+c'' x ''x'' (variables cfg)
     \<and> evaluateExpressionSimple R ''a*sin(b*x)+c'' x ''x'' (variables cfg) = Inr (Some w)"
proof (intro impI)
  assume a: "func_expr F = ''a*sin(b*x) + c'' \<and> func_dependentVar F = ''f''
     \<and> func_independentVar F = ''x''
     \<and> \<not> strict_equals (func_id F) (currentFuncId cfg) \<and> func_visible F \<noteq> JBool False
     \<and> functionDefs cfg = [Some F] \<and> independentVar cfg = ''x''
     \<and> number_isFinite x
     \<and> call_new_function R (allContext ''x'' x (variables cfg)) ''return x'' = Inr (JNum x)
     \<and> call_new_function R (allContext ''x'' x (variables cfg)) ''return a*sin(b*x)+c''
         = Inr (JNum w)
     \<and> call_new_function R (allContext ''x'' x (variables cfg)) ''return a*sin(b*x) + c''
         = Inr (JNum w)
     \<and> number_isFinite w \<and> list_all plain_decimal_char (number_to_string R w)
     \<and> call_new_function R (allContext ''x'' x (variables cfg))
         (''return '' @ number_to_string R w) = Inr (JNum w)"
  have 1: "evaluateExpression R (Suc (Suc depth)) ''f(x)'' x cfg = Inr (Some w)"
    by (rule composition_sine(1) [of F cfg x R w]) (use a in simp_all)
  have 2: "evaluateExpressionSimple R ''a*sin(b*x)+c'' x ''x'' (variables cfg) = Inr (Some w)"
    by (rule composition_sine(2) [of F cfg x R w]) (use a in simp_all)
  from 1 2 show "evaluateExpression R (Suc (Suc depth)) ''f(x)'' x cfg
         = evaluateExpressionSimple R ''a*sin(b*x)+c'' x ''x'' (variables cfg)
     \<and> evaluateExpressionSimple R ''a*sin(b*x)+c'' x ''x'' (variables cfg) = Inr (Some w)"
    by simp
qed

theorem composition_agrees_with_direct_evaluation_witness:
  "call_new_function worked_runtime (allContext ''x'' js_two worked_variables)
       ''return a*sin(b*x)+c'' = Inr (JNum 0x400576AA47848677)
   \<and> number_to_string worked_runtime 0x400576AA47848677 = ''2.682941969615793''
   \<and> evaluateExpression worked_runtime (Suc (Suc 0)) ''f(x)'' js_two worked_config
       = evaluateExpressionSimple worked_runtime ''a*sin(b*x)+c'' js_two ''x'' worked_variables
   \<and> evaluateExpressionSimple worked_runtime ''a*sin(b*x)+c'' js_two ''x'' worked_variables
       = Inr (Some 0x400576AA47848677)"
proof -
  have active: "\<not> strict_equals (JNum js_one) JNull" "JBool True \<noteq> JBool False"
    by simp_all
  show ?thesis
    using composition_agrees_with_direct_evaluation
      [of worked_f worked_config js_two worked_runtime "0x400576AA47848677" 0]
    by (simp add: worked_fields worked_engine worked_calls worked_finite active
          plain_decimal_char_def is_digit_def)
qed

section \<open>The derivative\<close>

text \<open>
  Claim C4. With room on the stack for \<open>evaluateExpression\<close>, both evaluations return;
  \<open>numericalDerivative\<close> returns \<open>null\<close> when either of them is \<open>null\<close>, and otherwise
  the quotient of their difference by \<open>2 * h\<close>.
\<close>

theorem numericalDerivative_central_difference:
  "\<exists>f1 f2.
     evaluateExpression R (Suc depth) expr (num_add R x h) cfg = Inr f1
   \<and> evaluateExpression R (Suc depth) expr (num_sub R x h) cfg = Inr f2
   \<and> numericalDerivative R (Suc depth) expr x cfg h =
       Inr (case (f1, f2) of
              (Some a, Some b) \<Rightarrow> Some (num_div R (num_sub R a b) (num_mul R js_two h))
            | _ \<Rightarrow> None)"
proof -
  obtain f1 where f1: "evaluateExpression R (Suc depth) expr (num_add R x h) cfg = Inr f1"
    using evaluateExpression_returns by blast
  obtain f2 where f2: "evaluateExpression R (Suc depth) expr (num_sub R x h) cfg = Inr f2"
    using evaluateExpression_returns by blast
  have "numericalDerivative R (Suc depth) expr x cfg h =
       Inr (case (f1, f2) of
              (Some a, Some b) \<Rightarrow> Some (num_div R (num_sub R a b) (num_mul R js_two h))
            | _ \<Rightarrow> None)"
    unfolding numericalDerivative_def f1 f2 by (simp split: option.splits)
  with f1 f2 show ?thesis by blast
qed

text \<open>
  Claim C10. The quotient is returned as it is. Whenever both evaluations return numbers
  (which are finite) and the quotient of their difference by \<open>2 * h\<close> is not finite,
  \<open>numericalDerivative\<close> returns that quotient, not \<open>null\<close>. With \<open>h = 0\<close> the
  quotient of the example is \<open>0 / 0\<close>, a NaN.
\<close>

theorem numericalDerivative_unfiltered:
  assumes "evaluateExpression R (Suc depth) expr (num_add R x h) cfg = Inr (Some f1)"
    and "evaluateExpression R (Suc depth) expr (num_sub R x h) cfg = Inr (Some f2)"
    and "\<not> number_isFinite (num_div R (num_sub R f1 f2) (num_mul R js_two h))"
  shows "number_isFinite f1 \<and> number_isFinite f2
     \<and> numericalDerivative R (Suc depth) expr x cfg h =
         Inr (Some (num_div R (num_sub R f1 f2) (num_mul R js_two h)))
     \<and> (\<exists>r. numericalDerivative R (Suc depth) expr x cfg h = Inr (Some r)
            \<and> \<not> number_isFinite r)"
proof -
  have "number_isFinite f1"
    using assms(1) by (rule evaluateExpression_finite)
  moreover have "number_isFinite f2"
    using assms(2) by (rule evaluateExpression_finite)
  moreover have "numericalDerivative R (Suc depth) expr x cfg h =
         Inr (Some (num_div R (num_sub R f1 f2) (num_mul R js_two h)))"
    unfolding numericalDerivative_def assms(1,2) by simp
  ultimately show ?thesis
    using assms(3) by simp
qed

theorem numericalDerivative_unfiltered_witness:
  "evaluateExpression example_runtime (Suc 0) ''x'' (num_add example_runtime js_one js_zero)
       default_config = Inr (Some js_one)
   \<and> evaluateExpression example_runtime (Suc 0) ''x'' (num_sub example_runtime js_one js_zero)
       default_config = Inr (Some js_one)
   \<and> number_isFinite js_one
   \<and> numericalDerivative example_runtime (Suc 0) ''x'' js_one default_config js_zero
       = Inr (Some js_NaN)
   \<and> \<not> number_isFinite js_NaN"
proof -
  have ev: "evaluateExpression example_runtime (Suc 0) ''x'' js_one default_config
      = Inr (Some js_one)"
    by (simp add: evaluateExpression_body_def default_config_def
          is_letter_def is_digit_def try_catch_def run_expression_def regex_literal_def
          is_word_char_def preprocessExpression_def e_excluded_def example_runtime_def
          example_call_def map_of_allContext number_isFinite_def js_one_def)
  have add: "num_add example_runtime js_one js_zero = js_one"
    and sub: "num_sub example_runtime js_one js_zero = js_one"
    by (simp_all add: example_runtime_def example_add_def example_sub_def number_isNaN_def
          number_isZero_def number_isFinite_def js_one_def js_zero_def)
  have quot: "num_div example_runtime (num_sub example_runtime js_one js_one)
        (num_mul example_runtime js_two js_zero) = js_NaN"
    by (simp add: example_runtime_def example_div_def example_sub_def example_mul_def
          number_isNaN_def number_isZero_def number_isFinite_def js_one_def js_zero_def
          js_two_def js_NaN_def)
  have nan: "\<not> number_isFinite js_NaN"
    by (simp add: number_isFinite_def js_NaN_def)
  have e1: "evaluateExpression example_runtime (Suc 0) ''x''
        (num_add example_runtime js_one js_zero) default_config = Inr (Some js_one)"
    by (simp only: add ev)
  have e2: "evaluateExpression example_runtime (Suc 0) ''x''
        (num_sub example_runtime js_one js_zero) default_config = Inr (Some js_one)"
    by (simp only: sub ev)
  from numericalDerivative_unfiltered [OF e1 e2] quot nan
  have "number_isFinite js_one
     \<and> numericalDerivative example_runtime (Suc 0) ''x'' js_one default_config js_zero
         = Inr (Some js_NaN)"
    by simp
  with e1 e2 nan show ?thesis
    by simp
qed

end
